theory Spec2Isabelle
  imports Main "HOL-Library.Word"
begin

unbundle bit_operations_syntax

section \<open>Data model of the monitor (kvm.c)\<close>

text \<open>
  Host addresses are natural numbers: pointer arithmetic that leaves the host address
  space is undefined in C and is not part of the model. The host memory is a store from
  host addresses to bytes; guest RAM is the block of \<open>ram_size\<close> bytes that starts at
  \<open>ram_start\<close>.
\<close>

type_synonym byte = "8 word"
type_synonym hostptr = nat
type_synonym hostmem = "nat \<Rightarrow> byte"

text \<open>\<open>struct kvm_segment\<close>, \<open>struct kvm_dtable\<close> and \<open>struct kvm_sregs\<close> of
  \<open>linux/kvm.h\<close>. The attribute bytes of a segment (type, present, dpl, db, s, l, g,
  avl) are kept together in \<open>attrs\<close>.\<close>

record kvm_segment =
  base :: "64 word"
  limit :: "32 word"
  selector :: "16 word"
  attrs :: "byte list"

record kvm_dtable =
  dt_base :: "64 word"
  dt_limit :: "16 word"

record kvm_sregs =
  cs :: kvm_segment
  ds :: kvm_segment
  es :: kvm_segment
  fs :: kvm_segment
  gs :: kvm_segment
  ss :: kvm_segment
  tr :: kvm_segment
  ldt :: kvm_segment
  gdt :: kvm_dtable
  idt :: kvm_dtable
  cr0 :: "64 word"
  cr2 :: "64 word"
  cr3 :: "64 word"
  cr4 :: "64 word"
  cr8 :: "64 word"
  efer :: "64 word"
  apic_base :: "64 word"
  interrupt_bitmap :: "64 word list"

record kvm_regs =
  rax :: "64 word"
  rbx :: "64 word"
  rcx :: "64 word"
  rdx :: "64 word"
  rsi :: "64 word"
  rdi :: "64 word"
  rsp :: "64 word"
  rbp :: "64 word"
  r8_15 :: "64 word list"
  rip :: "64 word"
  rflags :: "64 word"

record kvm_fpu =
  fpr :: "byte list"
  fcw :: "16 word"
  fsw :: "16 word"
  ftwx :: "8 word"
  last_opcode :: "16 word"
  last_ip :: "64 word"
  last_dp :: "64 word"
  xmm :: "byte list"
  mxcsr :: "32 word"

record kvm_msr_entry =
  index :: "32 word"
  data :: "64 word"

text \<open>\<open>struct real_intr_desc\<close> and the staging table of 256 descriptors.\<close>

record real_intr_desc =
  segment :: "16 word"
  offset :: "16 word"

text \<open>
  \<open>struct kvm\<close>. The header that declares it is not among the sources: \<open>boot_selector\<close>
  has the width of the selectors it is stored to, \<open>boot_ip\<close> and \<open>boot_sp\<close> the width
  of the registers they are copied into, so that the range check of \<open>kvm__setup_regs\<close>
  is modelled in full. \<open>host_mem\<close> is the host memory the monitor writes through the
  pointers it computes.
\<close>

record kvm =
  ram_start :: hostptr
  ram_size :: nat
  boot_selector :: "16 word"
  boot_ip :: "64 word"
  boot_sp :: "64 word"
  interrupt_table :: "real_intr_desc list"
  sregs :: kvm_sregs
  regs :: kvm_regs
  fpu :: kvm_fpu
  msrs :: "kvm_msr_entry list"
  host_mem :: hostmem

text \<open>Every \<open>die\<close> and \<open>die_perror\<close> of the source is the error \<open>Die\<close> with its
  message; \<open>Fault\<close> is a memory access that the C code does not check and where its
  behaviour is undefined (a store outside guest RAM, a read past the end of a table): the
  model follows the program no further.\<close>

datatype error = Die string | Fault

section \<open>Address translation (kvm.c, lines 73 to 93)\<close>

definition host_ptr_in_ram :: "'a kvm_scheme \<Rightarrow> hostptr \<Rightarrow> bool" where
  "host_ptr_in_ram self p = (ram_start self \<le> p \<and> p < ram_start self + ram_size self)"

definition segment_to_flat :: "16 word \<Rightarrow> 16 word \<Rightarrow> 32 word" where
  "segment_to_flat sel off = push_bit 4 (ucast sel :: 32 word) + (ucast off :: 32 word)"

definition guest_flat_to_host :: "'a kvm_scheme \<Rightarrow> nat \<Rightarrow> hostptr" where
  "guest_flat_to_host self off = ram_start self + off"

definition guest_real_to_host :: "'a kvm_scheme \<Rightarrow> 16 word \<Rightarrow> 16 word \<Rightarrow> hostptr" where
  "guest_real_to_host self sel off =
     (let flat = unat (segment_to_flat sel off) in guest_flat_to_host self flat)"

section \<open>CPU bring-up (kvm.c, lines 442 to 560)\<close>

text \<open>
  What the hypervisor answers to the VCPU ioctls of the bring-up: \<open>get_sregs\<close> is the
  register block that \<open>KVM_GET_SREGS\<close> stores (\<open>None\<close> when the ioctl fails), the flags
  say whether the \<open>KVM_SET_*\<close> ioctls succeed, and \<open>config_x86_64\<close> is the build
  option \<open>CONFIG_X86_64\<close>.
\<close>

record hypervisor =
  get_sregs :: "kvm_sregs option"
  set_sregs_ok :: bool
  set_regs_ok :: bool
  set_fpu_ok :: bool
  set_msrs_ok :: bool
  config_x86_64 :: bool

definition bind_r :: "error + 'a \<Rightarrow> ('a \<Rightarrow> error + 'b) \<Rightarrow> error + 'b" where
  "bind_r m f = (case m of Inl e \<Rightarrow> Inl e | Inr x \<Rightarrow> f x)"

definition selector_to_base :: "16 word \<Rightarrow> 32 word" where
  "selector_to_base sel = (ucast sel :: 32 word) * 16"

definition USHRT_MAX :: "64 word" where
  "USHRT_MAX = 0xFFFF"

definition kvm__setup_sregs :: "hypervisor \<Rightarrow> kvm \<Rightarrow> error + kvm" where
  "kvm__setup_sregs hv self =
     (case get_sregs hv of
        None \<Rightarrow> Inl (Die ''KVM_GET_SREGS failed'')
      | Some sr \<Rightarrow>
          (let b = boot_selector self;
               sr1 = sr\<lparr>cs := (cs sr)\<lparr>selector := b, base := ucast (selector_to_base b)\<rparr>\<rparr>;
               sr2 = sr1\<lparr>ss := (ss sr1)\<lparr>selector := b, base := ucast (selector_to_base b)\<rparr>\<rparr>;
               sr3 = sr2\<lparr>ds := (ds sr2)\<lparr>selector := b, base := ucast (selector_to_base b)\<rparr>\<rparr>;
               sr4 = sr3\<lparr>es := (es sr3)\<lparr>selector := b, base := ucast (selector_to_base b)\<rparr>\<rparr>;
               sr5 = sr4\<lparr>fs := (fs sr4)\<lparr>selector := b, base := ucast (selector_to_base b)\<rparr>\<rparr>;
               sr6 = sr5\<lparr>gs := (gs sr5)\<lparr>selector := b, base := ucast (selector_to_base b)\<rparr>\<rparr>
           in if set_sregs_ok hv then Inr (self\<lparr>sregs := sr6\<rparr>)
              else Inl (Die ''KVM_SET_SREGS failed'')))"

text \<open>The compound literal of \<open>kvm__setup_regs\<close>: every member it does not name is zero.\<close>

definition kvm__setup_regs :: "hypervisor \<Rightarrow> kvm \<Rightarrow> error + kvm" where
  "kvm__setup_regs hv self =
     (let r = \<lparr>rax = 0, rbx = 0, rcx = 0, rdx = 0, rsi = 0, rdi = 0,
                rsp = boot_sp self, rbp = boot_sp self, r8_15 = replicate 8 0,
                rip = boot_ip self, rflags = 0x0000000000000002\<rparr>
      in if USHRT_MAX < rip r then Inl (Die ''ip is too high for real mode'')
         else if set_regs_ok hv then Inr (self\<lparr>regs := r\<rparr>)
         else Inl (Die ''KVM_SET_REGS failed''))"

definition kvm__setup_fpu :: "hypervisor \<Rightarrow> kvm \<Rightarrow> error + kvm" where
  "kvm__setup_fpu hv self =
     (let f = \<lparr>fpr = replicate 128 0, fcw = 0x37f, fsw = 0, ftwx = 0, last_opcode = 0,
                last_ip = 0, last_dp = 0, xmm = replicate 256 0, mxcsr = 0x1f80\<rparr>
      in if set_fpu_ok hv then Inr (self\<lparr>fpu := f\<rparr>) else Inl (Die ''KVM_SET_FPU failed''))"

definition MSR_IA32_TIME_STAMP_COUNTER :: "32 word" where "MSR_IA32_TIME_STAMP_COUNTER = 0x10"
definition MSR_IA32_SYSENTER_CS :: "32 word" where "MSR_IA32_SYSENTER_CS = 0x174"
definition MSR_IA32_SYSENTER_ESP :: "32 word" where "MSR_IA32_SYSENTER_ESP = 0x175"
definition MSR_IA32_SYSENTER_EIP :: "32 word" where "MSR_IA32_SYSENTER_EIP = 0x176"
definition MSR_IA32_STAR :: "32 word" where "MSR_IA32_STAR = 0xc0000081"
definition MSR_IA32_LSTAR :: "32 word" where "MSR_IA32_LSTAR = 0xc0000082"
definition MSR_IA32_CSTAR :: "32 word" where "MSR_IA32_CSTAR = 0xc0000083"
definition MSR_IA32_FMASK :: "32 word" where "MSR_IA32_FMASK = 0xc0000084"
definition MSR_IA32_KERNEL_GS_BASE :: "32 word" where "MSR_IA32_KERNEL_GS_BASE = 0xc0000102"

definition KVM_MSR_ENTRY :: "32 word \<Rightarrow> 64 word \<Rightarrow> kvm_msr_entry" where
  "KVM_MSR_ENTRY i d = \<lparr>index = i, data = d\<rparr>"

definition kvm__setup_msrs :: "hypervisor \<Rightarrow> kvm \<Rightarrow> error + kvm" where
  "kvm__setup_msrs hv self =
     (let es = [KVM_MSR_ENTRY MSR_IA32_SYSENTER_CS 0, KVM_MSR_ENTRY MSR_IA32_SYSENTER_ESP 0,
                KVM_MSR_ENTRY MSR_IA32_SYSENTER_EIP 0]
               @ (if config_x86_64 hv
                  then [KVM_MSR_ENTRY MSR_IA32_STAR 0, KVM_MSR_ENTRY MSR_IA32_CSTAR 0,
                        KVM_MSR_ENTRY MSR_IA32_KERNEL_GS_BASE 0, KVM_MSR_ENTRY MSR_IA32_FMASK 0,
                        KVM_MSR_ENTRY MSR_IA32_LSTAR 0]
                  else [])
               @ [KVM_MSR_ENTRY MSR_IA32_TIME_STAMP_COUNTER 0]
      in if set_msrs_ok hv then Inr (self\<lparr>msrs := es\<rparr>) else Inl (Die ''KVM_SET_MSRS failed''))"

definition kvm__reset_vcpu :: "hypervisor \<Rightarrow> kvm \<Rightarrow> error + kvm" where
  "kvm__reset_vcpu hv self =
     bind_r (kvm__setup_sregs hv self) (\<lambda>s1.
     bind_r (kvm__setup_regs hv s1) (\<lambda>s2.
     bind_r (kvm__setup_fpu hv s2) (\<lambda>s3.
     kvm__setup_msrs hv s3)))"

section \<open>The exit-dispatch loop (main.c, lines 229 to 287)\<close>

text \<open>The exit reasons named in \<open>kvm_exit_reasons\<close>, which are the values 0 to 17 of
  \<open>linux/kvm.h\<close>; any other value of the 32-bit field, 18 or more, is
  \<open>KVM_EXIT_OTHER\<close>.\<close>

datatype exit_reason =
    KVM_EXIT_UNKNOWN | KVM_EXIT_EXCEPTION | KVM_EXIT_IO | KVM_EXIT_HYPERCALL
  | KVM_EXIT_DEBUG | KVM_EXIT_HLT | KVM_EXIT_MMIO | KVM_EXIT_IRQ_WINDOW_OPEN
  | KVM_EXIT_SHUTDOWN | KVM_EXIT_FAIL_ENTRY | KVM_EXIT_INTR | KVM_EXIT_SET_TPR
  | KVM_EXIT_TPR_ACCESS | KVM_EXIT_S390_SIEIC | KVM_EXIT_S390_RESET | KVM_EXIT_DCR
  | KVM_EXIT_NMI | KVM_EXIT_INTERNAL_ERROR | KVM_EXIT_OTHER "32 word"

text \<open>
  One pass of the loop as the monitor sees it: the result of the \<open>KVM_RUN\<close> ioctl, the
  exit reason and the hardware exit code of the run area, what the device collaborators
  \<open>kvm__emulate_io\<close> and \<open>kvm__emulate_mmio\<close> answer for this exit, and whether the
  register ioctls of the diagnostic dumps succeed.
\<close>

record kvm_run =
  run_ret :: int
  reason :: exit_reason
  hardware_exit_reason :: "64 word"
  io_handled :: bool
  mmio_handled :: bool
  dump_ok :: bool

datatype message =
    Exit_reason_line exit_reason string
  | Exit_code_line "64 word"
  | Register_dump
  | Die_line string

text \<open>A finished process: its exit status and what it wrote to the diagnostic channel.\<close>

type_synonym outcome = "int \<times> message list"

text \<open>Modelled from the spec: \<open>die\<close> and \<open>die_perror\<close> (util.c, not among the sources)
  report the message and end the process with status 1.\<close>

definition die :: "string \<Rightarrow> outcome" where
  "die msg = (1, [Die_line msg])"

text \<open>
  The table \<open>kvm_exit_reasons\<close> of kvm.c: 18 entries, one for each named exit reason.
  \<open>None\<close>: the index lies past the end of the table.
\<close>

fun kvm_exit_reasons :: "exit_reason \<Rightarrow> string option" where
  "kvm_exit_reasons KVM_EXIT_UNKNOWN = Some ''KVM_EXIT_UNKNOWN''"
| "kvm_exit_reasons KVM_EXIT_EXCEPTION = Some ''KVM_EXIT_EXCEPTION''"
| "kvm_exit_reasons KVM_EXIT_IO = Some ''KVM_EXIT_IO''"
| "kvm_exit_reasons KVM_EXIT_HYPERCALL = Some ''KVM_EXIT_HYPERCALL''"
| "kvm_exit_reasons KVM_EXIT_DEBUG = Some ''KVM_EXIT_DEBUG''"
| "kvm_exit_reasons KVM_EXIT_HLT = Some ''KVM_EXIT_HLT''"
| "kvm_exit_reasons KVM_EXIT_MMIO = Some ''KVM_EXIT_MMIO''"
| "kvm_exit_reasons KVM_EXIT_IRQ_WINDOW_OPEN = Some ''KVM_EXIT_IRQ_WINDOW_OPEN''"
| "kvm_exit_reasons KVM_EXIT_SHUTDOWN = Some ''KVM_EXIT_SHUTDOWN''"
| "kvm_exit_reasons KVM_EXIT_FAIL_ENTRY = Some ''KVM_EXIT_FAIL_ENTRY''"
| "kvm_exit_reasons KVM_EXIT_INTR = Some ''KVM_EXIT_INTR''"
| "kvm_exit_reasons KVM_EXIT_SET_TPR = Some ''KVM_EXIT_SET_TPR''"
| "kvm_exit_reasons KVM_EXIT_TPR_ACCESS = Some ''KVM_EXIT_TPR_ACCESS''"
| "kvm_exit_reasons KVM_EXIT_S390_SIEIC = Some ''KVM_EXIT_S390_SIEIC''"
| "kvm_exit_reasons KVM_EXIT_S390_RESET = Some ''KVM_EXIT_S390_RESET''"
| "kvm_exit_reasons KVM_EXIT_DCR = Some ''KVM_EXIT_DCR''"
| "kvm_exit_reasons KVM_EXIT_NMI = Some ''KVM_EXIT_NMI''"
| "kvm_exit_reasons KVM_EXIT_INTERNAL_ERROR = Some ''KVM_EXIT_INTERNAL_ERROR''"
| "kvm_exit_reasons (KVM_EXIT_OTHER w) = None"

text \<open>
  The code after the label \<open>exit_kvm\<close>: the \<open>fprintf\<close> of the exit reason and of its name
  \<open>kvm_exit_reasons[exit_reason]\<close>, read without a bound on the index; the \<open>fprintf\<close> of
  the hardware exit code; the dumps; \<open>return 0\<close>.
\<close>

definition exit_kvm :: "kvm_run \<Rightarrow> error + outcome" where
  "exit_kvm r =
     (case kvm_exit_reasons (reason r) of
        None \<Rightarrow> Inl Fault
      | Some name \<Rightarrow>
          (let out = [Exit_reason_line (reason r) name]
                     @ (if reason r = KVM_EXIT_UNKNOWN
                        then [Exit_code_line (hardware_exit_reason r)] else [])
           in if dump_ok r then Inr (0, out @ [Register_dump])
              else Inr (1, out @ [Die_line ''KVM_GET_REGS failed''])))"

text \<open>
  The loop over the runs the hypervisor grants. \<open>None\<close>: the loop is still running when
  the trace ends.
\<close>

fun main_loop :: "kvm_run list \<Rightarrow> (error + outcome) option" where
  "main_loop [] = None"
| "main_loop (r # rs) =
     (if run_ret r < 0 then Some (Inr (die ''KVM_RUN failed''))
      else case reason r of
          KVM_EXIT_DEBUG \<Rightarrow>
            if dump_ok r then main_loop rs else Some (Inr (die ''KVM_GET_REGS failed''))
        | KVM_EXIT_IO \<Rightarrow> if io_handled r then main_loop rs else Some (exit_kvm r)
        | KVM_EXIT_MMIO \<Rightarrow> if mmio_handled r then main_loop rs else Some (exit_kvm r)
        | KVM_EXIT_INTR \<Rightarrow> main_loop rs
        | _ \<Rightarrow> Some (exit_kvm r))"

text \<open>An exit on which the loop goes on to the next run.\<close>

definition continues :: "kvm_run \<Rightarrow> bool" where
  "continues r =
     (0 \<le> run_ret r \<and>
      (case reason r of
          KVM_EXIT_DEBUG \<Rightarrow> dump_ok r
        | KVM_EXIT_IO \<Rightarrow> io_handled r
        | KVM_EXIT_MMIO \<Rightarrow> mmio_handled r
        | KVM_EXIT_INTR \<Rightarrow> True
        | _ \<Rightarrow> False))"


section \<open>Files and stores into guest RAM\<close>

text \<open>
  A kernel file is the list of its bytes; a \<open>read\<close> of \<open>n\<close> bytes at a position returns
  the next \<open>n\<close> bytes or what is left of the file (a regular file: no read error, no
  failing \<open>lseek\<close>). \<open>poke\<close> writes a block of bytes into a memory; \<open>store\<close> is a write
  of the monitor through a host pointer, a \<open>Fault\<close> when the block is not inside guest
  RAM.
\<close>

definition read_fd :: "byte list \<Rightarrow> nat \<Rightarrow> nat \<Rightarrow> byte list" where
  "read_fd file pos n = take n (drop pos file)"

definition poke :: "hostmem \<Rightarrow> hostptr \<Rightarrow> byte list \<Rightarrow> hostmem" where
  "poke m p bs = (\<lambda>a. if p \<le> a \<and> a < p + length bs then bs ! (a - p) else m a)"

definition store :: "kvm \<Rightarrow> hostptr \<Rightarrow> byte list \<Rightarrow> error + kvm" where
  "store self p bs =
     (if bs = [] then Inr self
      else if host_ptr_in_ram self p \<and> host_ptr_in_ram self (p + length bs - 1)
      then Inr (self\<lparr>host_mem := poke (host_mem self) p bs\<rparr>)
      else Inl Fault)"

text \<open>Little-endian values in memory.\<close>

definition le16 :: "nat \<Rightarrow> byte list" where
  "le16 v = [of_nat v, of_nat (v div 256)]"

definition le32 :: "nat \<Rightarrow> byte list" where
  "le32 v = [of_nat v, of_nat (v div 256), of_nat (v div 65536), of_nat (v div 16777216)]"

definition u16_at :: "(nat \<Rightarrow> byte) \<Rightarrow> nat \<Rightarrow> nat" where
  "u16_at b i = unat (b i) + 256 * unat (b (i + 1))"

definition u32_at :: "(nat \<Rightarrow> byte) \<Rightarrow> nat \<Rightarrow> nat" where
  "u32_at b i = unat (b i) + 256 * unat (b (i + 1)) + 65536 * unat (b (i + 2))
                + 16777216 * unat (b (i + 3))"

section \<open>The kernel loader (kvm.c, lines 236 to 412)\<close>

definition BOOT_LOADER_SELECTOR :: "16 word" where "BOOT_LOADER_SELECTOR = 0x1000"
definition BOOT_LOADER_IP :: "16 word" where "BOOT_LOADER_IP = 0x0000"
definition BOOT_LOADER_SP :: "16 word" where "BOOT_LOADER_SP = 0x8000"
definition BOOT_CMDLINE_OFFSET :: nat where "BOOT_CMDLINE_OFFSET = 0x20000"
definition BOOT_PROTOCOL_REQUIRED :: nat where "BOOT_PROTOCOL_REQUIRED = 0x202"
definition BZ_KERNEL_START :: nat where "BZ_KERNEL_START = 0x100000"
definition BZ_DEFAULT_SETUP_SECTS :: nat where "BZ_DEFAULT_SETUP_SECTS = 4"
definition BZIMAGE_MAGIC :: "byte list" where "BZIMAGE_MAGIC = [0x48, 0x64, 0x72, 0x53]"

text \<open>
  \<open>struct boot_params\<close> of \<open>asm/bootparam.h\<close> (the Linux boot protocol): 4096 bytes,
  the setup header \<open>hdr\<close> at \<open>0x1f1\<close>, and in it \<open>setup_sects\<close> at \<open>0x1f1\<close>, \<open>header\<close>
  at \<open>0x202\<close>, \<open>version\<close> at \<open>0x206\<close>, \<open>type_of_loader\<close> at \<open>0x210\<close>, \<open>loadflags\<close> at
  \<open>0x211\<close>, \<open>heap_end_ptr\<close> at \<open>0x224\<close>, \<open>cmd_line_ptr\<close> at \<open>0x228\<close> and
  \<open>cmdline_size\<close> at \<open>0x238\<close>; \<open>CAN_USE_HEAP\<close> is bit 7 of \<open>loadflags\<close>. The
  offsets below are \<open>hdr_offset(member)\<close>.
\<close>

definition sizeof_boot_params :: nat where "sizeof_boot_params = 4096"
definition off_setup_sects :: nat where "off_setup_sects = 0x1f1"
definition off_header :: nat where "off_header = 0x202"
definition off_version :: nat where "off_version = 0x206"
definition off_type_of_loader :: nat where "off_type_of_loader = 0x210"
definition off_loadflags :: nat where "off_loadflags = 0x211"
definition off_heap_end_ptr :: nat where "off_heap_end_ptr = 0x224"
definition off_cmd_line_ptr :: nat where "off_cmd_line_ptr = 0x228"
definition off_cmdline_size :: nat where "off_cmdline_size = 0x238"
definition CAN_USE_HEAP :: byte where "CAN_USE_HEAP = 0x80"

text \<open>
  \<open>read(fd, &boot, sizeof(boot))\<close> at position 0, its result unchecked: the bytes the
  file has overwrite the start of the local variable \<open>boot\<close>; \<open>boot0\<close> is what the
  stack held there before.
\<close>

definition read_boot :: "byte list \<Rightarrow> (nat \<Rightarrow> byte) \<Rightarrow> (nat \<Rightarrow> byte)" where
  "read_boot file boot0 =
     (let got = read_fd file 0 sizeof_boot_params
      in (\<lambda>i. if i < length got then got ! i else boot0 i))"

definition hdr_header :: "(nat \<Rightarrow> byte) \<Rightarrow> byte list" where
  "hdr_header boot = [boot off_header, boot (off_header + 1), boot (off_header + 2),
                      boot (off_header + 3)]"

definition hdr_version :: "(nat \<Rightarrow> byte) \<Rightarrow> nat" where
  "hdr_version boot = u16_at boot off_version"

definition hdr_setup_sects :: "(nat \<Rightarrow> byte) \<Rightarrow> nat" where
  "hdr_setup_sects boot = unat (boot off_setup_sects)"

definition hdr_cmdline_size :: "(nat \<Rightarrow> byte) \<Rightarrow> nat" where
  "hdr_cmdline_size boot = u32_at boot off_cmdline_size"

text \<open>The loop \<open>while ((nr = read(fd, p, 65536)) > 0) p += nr\<close> over the unread rest of
  the file.\<close>

function read_loop :: "kvm \<Rightarrow> hostptr \<Rightarrow> byte list \<Rightarrow> error + kvm" where
  "read_loop self p rest =
     (let chunk = take 65536 rest
      in if 0 < length chunk
         then (case store self p chunk of
                 Inl e \<Rightarrow> Inl e
               | Inr s \<Rightarrow> read_loop s (p + length chunk) (drop (length chunk) rest))
         else Inr self)"
  by pat_completeness auto
termination
  by (relation "measure (\<lambda>(self, p, rest). length rest)") auto

declare read_loop.simps [simp del]

definition load_flat_binary :: "kvm \<Rightarrow> byte list \<Rightarrow> error + (bool \<times> kvm)" where
  "load_flat_binary self file =
     (let p = guest_real_to_host self BOOT_LOADER_SELECTOR BOOT_LOADER_IP
      in bind_r (read_loop self p (drop 0 file)) (\<lambda>s.
         Inr (True, s\<lparr>boot_selector := BOOT_LOADER_SELECTOR,
                      boot_ip := ucast BOOT_LOADER_IP,
                      boot_sp := ucast BOOT_LOADER_SP\<rparr>)))"

text \<open>Lines 306 to 310: the number of setup sectors and the size of the real-mode setup.\<close>

definition bz_setup_size :: "(nat \<Rightarrow> byte) \<Rightarrow> nat" where
  "bz_setup_size boot =
     (let n = (if hdr_setup_sects boot = 0 then BZ_DEFAULT_SETUP_SECTS else hdr_setup_sects boot);
          setup_sects = n + 1
      in setup_sects * 2 ^ 9)"

text \<open>
  The length of a C string held in a buffer, and lines 321 to 329. The command line is
  the buffer up to its terminating NUL, \<open>None\<close> for the NULL pointer. \<open>cmdline_size - 1\<close>
  is computed in \<open>size_t\<close>: for \<open>cmdline_size = 0\<close> it is \<open>SIZE_MAX\<close>, and a \<open>memcpy\<close>
  of that many bytes runs off both buffers.
\<close>

definition strlen :: "byte list \<Rightarrow> nat" where
  "strlen s = length (takeWhile (\<lambda>c. c \<noteq> 0) s)"

definition place_cmdline :: "kvm \<Rightarrow> (nat \<Rightarrow> byte) \<Rightarrow> byte list option \<Rightarrow> error + kvm" where
  "place_cmdline self boot kernel_cmdline =
     (let p = guest_flat_to_host self BOOT_CMDLINE_OFFSET
      in case kernel_cmdline of
           None \<Rightarrow> Inr self
         | Some s \<Rightarrow>
             (let cmdline_size0 = strlen s + 1;
                  cmdline_size = (if cmdline_size0 > hdr_cmdline_size boot
                                  then hdr_cmdline_size boot else cmdline_size0)
              in bind_r (store self p (replicate (hdr_cmdline_size boot) 0)) (\<lambda>s1.
                 if cmdline_size = 0 then Inl Fault
                 else store s1 p (take (cmdline_size - 1) (s @ [0])))))"

text \<open>Lines 339 to 350: the fields of the guest's copy of the header that are updated.\<close>

definition guest_hdr :: "kvm \<Rightarrow> nat \<Rightarrow> hostptr" where
  "guest_hdr self member_offset = guest_real_to_host self BOOT_LOADER_SELECTOR (of_nat member_offset)"

definition patch_header :: "kvm \<Rightarrow> error + kvm" where
  "patch_header self =
     bind_r (store self (guest_hdr self off_cmd_line_ptr) (le32 BOOT_CMDLINE_OFFSET)) (\<lambda>s1.
     bind_r (store s1 (guest_hdr s1 off_type_of_loader) [0xff]) (\<lambda>s2.
     bind_r (store s2 (guest_hdr s2 off_heap_end_ptr) (le16 0xfe00)) (\<lambda>s3.
     store s3 (guest_hdr s3 off_loadflags)
       [host_mem s3 (guest_hdr s3 off_loadflags) OR CAN_USE_HEAP])))"

text \<open>
  What \<open>kvm/bios.h\<close> and the assembled \<open>bios-rom.S\<close> provide, none of it among the
  sources: the bytes between \<open>intfake\<close> and \<open>intfake_end\<close> and between \<open>int10\<close> and
  \<open>int10_end\<close>, and the macros \<open>BDA_START\<close>, \<open>BIOS_INTR_NEXT\<close> and \<open>REAL_SEGMENT\<close>.
\<close>

record bios_rom =
  intfake :: "byte list"
  int10 :: "byte list"
  BDA_START :: nat
  BIOS_INTR_NEXT :: "nat \<Rightarrow> nat \<Rightarrow> nat"
  REAL_SEGMENT :: "nat \<Rightarrow> 16 word"

text \<open>
  Modelled from the spec: the interrupt table builder (\<open>interrupt.c\<close> is not among the
  sources). \<open>setup\<close> fills all 256 entries with the default, \<open>set\<close> overwrites a single
  entry, \<open>copy\<close> writes the table in the real-mode layout: 4 bytes per entry, the offset
  first and the segment second, both little-endian.
\<close>

definition interrupt_table__setup :: "real_intr_desc \<Rightarrow> real_intr_desc list" where
  "interrupt_table__setup d = replicate 256 d"

definition interrupt_table__set ::
  "real_intr_desc list \<Rightarrow> real_intr_desc \<Rightarrow> nat \<Rightarrow> real_intr_desc list" where
  "interrupt_table__set tbl d num = (if num < length tbl then tbl[num := d] else tbl)"

definition interrupt_table__copy :: "kvm \<Rightarrow> hostptr \<Rightarrow> error + kvm" where
  "interrupt_table__copy self p =
     store self p
       (concat (map (\<lambda>d. le16 (unat (offset d)) @ le16 (unat (segment d))) (interrupt_table self)))"

text \<open>Lines 360 to 385: the BIOS stubs and the interrupt vector table.\<close>

definition install_bios :: "bios_rom \<Rightarrow> kvm \<Rightarrow> error + kvm" where
  "install_bios rom self =
     (let intr_addr = BIOS_INTR_NEXT rom (BDA_START rom + 0) 16
      in bind_r (store self (guest_flat_to_host self intr_addr) (intfake rom)) (\<lambda>s1.
         let intr = \<lparr>segment = REAL_SEGMENT rom intr_addr, offset = 0\<rparr>;
             s2 = s1\<lparr>interrupt_table := interrupt_table__setup intr\<rparr>;
             intr_addr = BIOS_INTR_NEXT rom (BDA_START rom + length (intfake rom)) 16
         in bind_r (store s2 (guest_flat_to_host s2 intr_addr) (int10 rom)) (\<lambda>s3.
            let intr = \<lparr>segment = REAL_SEGMENT rom intr_addr, offset = 0\<rparr>;
                s4 = s3\<lparr>interrupt_table := interrupt_table__set (interrupt_table s3) intr 0x10\<rparr>
            in interrupt_table__copy s4 (guest_flat_to_host s4 0))))"

definition load_bzimage ::
  "bios_rom \<Rightarrow> kvm \<Rightarrow> byte list \<Rightarrow> byte list option \<Rightarrow> (nat \<Rightarrow> byte) \<Rightarrow> error + (bool \<times> kvm)" where
  "load_bzimage rom self file kernel_cmdline boot0 =
     (let boot = read_boot file boot0
      in if hdr_header boot \<noteq> BZIMAGE_MAGIC then Inr (False, self)
         else if hdr_version boot < BOOT_PROTOCOL_REQUIRED then Inr (False, self)
         else
           (let setup_size = bz_setup_size boot;
                p = guest_real_to_host self BOOT_LOADER_SELECTOR BOOT_LOADER_IP;
                got = read_fd file 0 setup_size
            in bind_r (store self p got) (\<lambda>s1.
               if length got \<noteq> setup_size then Inl (Die ''read'')
               else
                 bind_r (read_loop s1 (guest_flat_to_host s1 BZ_KERNEL_START)
                           (drop setup_size file)) (\<lambda>s2.
                 bind_r (place_cmdline s2 boot kernel_cmdline) (\<lambda>s3.
                 bind_r (patch_header s3) (\<lambda>s4.
                 bind_r (install_bios rom
                           (s4\<lparr>boot_selector := BOOT_LOADER_SELECTOR,
                               boot_ip := ucast BOOT_LOADER_IP + 0x200,
                               boot_sp := ucast BOOT_LOADER_SP\<rparr>)) (\<lambda>s5.
                 Inr (True, s5))))))))"

text \<open>\<open>kvm__load_kernel\<close>; the file is \<open>None\<close> when \<open>open\<close> fails.\<close>

definition kvm__load_kernel ::
  "bios_rom \<Rightarrow> kvm \<Rightarrow> byte list option \<Rightarrow> byte list option \<Rightarrow> (nat \<Rightarrow> byte) \<Rightarrow> error + (bool \<times> kvm)" where
  "kvm__load_kernel rom kvm kernel_file kernel_cmdline boot0 =
     (case kernel_file of
        None \<Rightarrow> Inl (Die ''unable to open kernel'')
      | Some file \<Rightarrow>
          bind_r (load_bzimage rom kvm file kernel_cmdline boot0) (\<lambda>(ret, k1).
            if ret then Inr (ret, k1)
            else bind_r (load_flat_binary k1 file) (\<lambda>(ret, k2).
              if ret then Inr (ret, k2)
              else Inl (Die ''is not a valid bzImage or flat binary''))))"

text \<open>A block of \<open>n\<close> bytes at guest offset \<open>off\<close> lies inside guest RAM.\<close>

definition in_ram :: "kvm \<Rightarrow> nat \<Rightarrow> nat \<Rightarrow> bool" where
  "in_ram self off n = (n = 0 \<or> off + n \<le> ram_size self)"

text \<open>Both BIOS stubs, at the addresses \<open>load_bzimage\<close> computes for them, end at or
  below the guest address \<open>lim\<close>.\<close>

definition stubs_below :: "bios_rom \<Rightarrow> nat \<Rightarrow> bool" where
  "stubs_below rom lim =
     (BIOS_INTR_NEXT rom (BDA_START rom + 0) 16 + length (intfake rom) \<le> lim \<and>
      BIOS_INTR_NEXT rom (BDA_START rom + length (intfake rom)) 16 + length (int10 rom) \<le> lim)"

section \<open>Sample inputs of the monitor\<close>

definition sample_segment :: kvm_segment where
  "sample_segment = \<lparr>base = 0xffff0000, limit = 0xffff, selector = 0xf000, attrs = [3, 1, 0, 0, 1, 0, 0, 0]\<rparr>"

definition sample_dtable :: kvm_dtable where
  "sample_dtable = \<lparr>dt_base = 0, dt_limit = 0xffff\<rparr>"

definition sample_sregs :: kvm_sregs where
  "sample_sregs =
     \<lparr>cs = sample_segment, ds = sample_segment, es = sample_segment, fs = sample_segment,
      gs = sample_segment, ss = sample_segment, tr = sample_segment, ldt = sample_segment,
      gdt = sample_dtable, idt = sample_dtable,
      cr0 = 0x60000010, cr2 = 0, cr3 = 0, cr4 = 0, cr8 = 0, efer = 0, apic_base = 0xfee00900,
      interrupt_bitmap = replicate 4 0\<rparr>"

definition zero_regs :: kvm_regs where
  "zero_regs = \<lparr>rax = 0, rbx = 0, rcx = 0, rdx = 0, rsi = 0, rdi = 0, rsp = 0, rbp = 0,
                 r8_15 = replicate 8 0, rip = 0, rflags = 0\<rparr>"

definition zero_fpu :: kvm_fpu where
  "zero_fpu = \<lparr>fpr = [], fcw = 0, fsw = 0, ftwx = 0, last_opcode = 0, last_ip = 0,
                last_dp = 0, xmm = [], mxcsr = 0\<rparr>"

text \<open>The monitor as \<open>kvm__init\<close> leaves it (\<open>calloc\<close>, then 64 MiB of RAM), with the
  block that \<open>posix_memalign\<close> returned at host address \<open>0x7f0000000000\<close>.\<close>

definition fresh_kvm :: kvm where
  "fresh_kvm =
     \<lparr>ram_start = 0x7f0000000000, ram_size = 64 * 1024 * 1024, boot_selector = 0,
      boot_ip = 0, boot_sp = 0, interrupt_table = [], sregs = sample_sregs,
      regs = zero_regs, fpu = zero_fpu, msrs = [], host_mem = (\<lambda>_. 0)\<rparr>"

definition good_hypervisor :: hypervisor where
  "good_hypervisor =
     \<lparr>get_sregs = Some sample_sregs, set_sregs_ok = True, set_regs_ok = True,
      set_fpu_ok = True, set_msrs_ok = True, config_x86_64 = True\<rparr>"

definition exit_with :: "exit_reason \<Rightarrow> kvm_run" where
  "exit_with x = \<lparr>run_ret = 0, reason = x, hardware_exit_reason = 7, io_handled = True,
                  mmio_handled = True, dump_ok = True\<rparr>"

definition booted_kvm :: kvm where
  "booted_kvm = fresh_kvm\<lparr>boot_selector := 0x1000, boot_ip := 0x200, boot_sp := 0x8000\<rparr>"

text \<open>The BIOS stubs as the original headers place them: the BDA at \<open>0x400\<close>, a stub
  16 bytes after the end of the one before, segments as addresses divided by 16; the
  stub of \<open>intfake\<close> is the single opcode \<open>IRET\<close>.\<close>

definition sample_rom :: bios_rom where
  "sample_rom = \<lparr>intfake = [0xCF], int10 = [0xF6, 0xC4, 0x0E, 0xCF], BDA_START = 0x400,
                  BIOS_INTR_NEXT = (\<lambda>prev size. prev + size),
                  REAL_SEGMENT = (\<lambda>addr. of_nat (addr div 16))\<rparr>"


definition short_bzimage :: "byte list" where
  "short_bzimage = replicate 0x202 0 @ [0x48, 0x64, 0x72, 0x53] @ [0x02, 0x02] @ replicate 504 0"

text \<open>
  A small bzImage: \<open>setup_sects = 1\<close> (a setup of 1024 bytes), the magic, the version
  \<open>0x0202\<close>, \<open>loadflags = 0x01\<close>, \<open>cmdline_size = 8\<close>, and a payload of three bytes;
  and the command line \<open>abcdefghij\<close>.
\<close>

definition sample_bzimage :: "byte list" where
  "sample_bzimage =
     replicate 0x1f1 0 @ [1] @ replicate 0x10 0 @ [0x48, 0x64, 0x72, 0x53] @ [0x02, 0x02]
     @ replicate 9 0 @ [0x01] @ replicate 38 0 @ [8, 0, 0, 0] @ replicate 452 0
     @ [0xAA, 0xBB, 0xCC]"

definition sample_cmdline :: "byte list" where
  "sample_cmdline = [0x61, 0x62, 0x63, 0x64, 0x65, 0x66, 0x67, 0x68, 0x69, 0x6a]"

text \<open>The same bzImage with \<open>cmdline_size = 0\<close>, as an image of the protocol versions
  2.02 to 2.05 has it, where the header has no such field yet and the bytes at \<open>0x238\<close>
  are zero.\<close>

definition zero_size_bzimage :: "byte list" where
  "zero_size_bzimage =
     replicate 0x1f1 0 @ [1] @ replicate 0x10 0 @ [0x48, 0x64, 0x72, 0x53] @ [0x02, 0x02]
     @ replicate 9 0 @ [0x01] @ replicate 38 0 @ [0, 0, 0, 0] @ replicate 452 0
     @ [0xAA, 0xBB, 0xCC]"

section \<open>The BIOS stubs (bios/bios-rom.S)\<close>

text \<open>
  The real-mode processor as far as the stubs use it. \<open>ESP\<close> is kept as its two halves:
  \<open>push\<close>, \<open>pop\<close> and \<open>IRET\<close> address the stack through \<open>SS:SP\<close> and change \<open>SP\<close> only,
  a memory operand \<open>(%esp)\<close> uses all 32 bits. In \<open>flags\<close> bit 0 is the carry flag and
  bit 6 the zero flag; the other arithmetic flags are not tracked (every path ends in
  \<open>IRET\<close>, which reloads the register). \<open>x_mem\<close> is the guest memory by linear address;
  a word that straddles the end of a segment is not modelled.
\<close>

record x86 =
  eax :: "32 word"
  ebx :: "32 word"
  ecx :: "32 word"
  edx :: "32 word"
  edi :: "32 word"
  esp_hi :: "16 word"
  sp :: "16 word"
  seg_cs :: "16 word"
  seg_ss :: "16 word"
  seg_fs :: "16 word"
  ip :: "16 word"
  flags :: "16 word"
  x_mem :: "nat \<Rightarrow> byte"

definition lin :: "16 word \<Rightarrow> 16 word \<Rightarrow> nat" where
  "lin seg off = unat seg * 16 + unat off"



definition ah :: "x86 \<Rightarrow> byte" where
  "ah s = ucast (drop_bit 8 (eax s))"

definition al :: "x86 \<Rightarrow> byte" where
  "al s = ucast (eax s)"

definition bx :: "x86 \<Rightarrow> 16 word" where
  "bx s = ucast (ebx s)"

definition set_bx :: "16 word \<Rightarrow> x86 \<Rightarrow> x86" where
  "set_bx v s = s\<lparr>ebx := push_bit 16 (drop_bit 16 (ebx s)) OR ucast v\<rparr>"

definition cf :: "x86 \<Rightarrow> bool" where
  "cf s = bit (flags s) 0"

definition zf :: "x86 \<Rightarrow> bool" where
  "zf s = bit (flags s) 6"

definition set_arith :: "bool \<Rightarrow> bool \<Rightarrow> x86 \<Rightarrow> x86" where
  "set_arith c z s =
     s\<lparr>flags := (if z then set_bit 6 else unset_bit 6)
                    ((if c then set_bit 0 else unset_bit 0) (flags s))\<rparr>"

text \<open>\<open>test\<close> (carry cleared, zero flag from the conjunction), \<open>cmp\<close> (zero flag on
  equality, carry on an unsigned borrow).\<close>

definition test8 :: "byte \<Rightarrow> byte \<Rightarrow> x86 \<Rightarrow> x86" where
  "test8 imm v s = set_arith False (v AND imm = 0) s"

definition test16 :: "16 word \<Rightarrow> 16 word \<Rightarrow> x86 \<Rightarrow> x86" where
  "test16 imm v s = set_arith False (v AND imm = 0) s"


definition read16 :: "(nat \<Rightarrow> byte) \<Rightarrow> nat \<Rightarrow> 16 word" where
  "read16 m a = ucast (m a) OR push_bit 8 (ucast (m (a + 1)))"

definition read32 :: "(nat \<Rightarrow> byte) \<Rightarrow> nat \<Rightarrow> 32 word" where
  "read32 m a = ucast (m a) OR push_bit 8 (ucast (m (a + 1))) OR push_bit 16 (ucast (m (a + 2)))
                OR push_bit 24 (ucast (m (a + 3)))"

definition bytes16 :: "16 word \<Rightarrow> byte list" where
  "bytes16 v = [ucast v, ucast (drop_bit 8 v)]"

definition bytes32 :: "32 word \<Rightarrow> byte list" where
  "bytes32 v = [ucast v, ucast (drop_bit 8 v), ucast (drop_bit 16 v), ucast (drop_bit 24 v)]"

definition push16 :: "16 word \<Rightarrow> x86 \<Rightarrow> x86" where
  "push16 v s = s\<lparr>sp := sp s - 2, x_mem := poke (x_mem s) (lin (seg_ss s) (sp s - 2)) (bytes16 v)\<rparr>"

definition push32 :: "32 word \<Rightarrow> x86 \<Rightarrow> x86" where
  "push32 v s = s\<lparr>sp := sp s - 4, x_mem := poke (x_mem s) (lin (seg_ss s) (sp s - 4)) (bytes32 v)\<rparr>"

definition pop16 :: "x86 \<Rightarrow> 16 word \<times> x86" where
  "pop16 s = (read16 (x_mem s) (lin (seg_ss s) (sp s)), s\<lparr>sp := sp s + 2\<rparr>)"

definition pop32 :: "x86 \<Rightarrow> 32 word \<times> x86" where
  "pop32 s = (read32 (x_mem s) (lin (seg_ss s) (sp s)), s\<lparr>sp := sp s + 4\<rparr>)"

text \<open>Modelled from the spec: the macro \<open>IRET\<close> of \<open>macro.S\<close> (not among the sources) is
  the single opcode \<open>0xCF\<close>, the 16-bit interrupt return: it pops \<open>IP\<close>, \<open>CS\<close> and
  \<open>FLAGS\<close>.\<close>

definition IRET :: "x86 \<Rightarrow> x86" where
  "IRET s =
     s\<lparr>ip := read16 (x_mem s) (lin (seg_ss s) (sp s)),
       seg_cs := read16 (x_mem s) (lin (seg_ss s) (sp s + 2)),
       flags := read16 (x_mem s) (lin (seg_ss s) (sp s + 4)),
       sp := sp s + 6\<rparr>"

text \<open>
  What the stubs take from files that are not among the sources: \<open>VGA_RAM_SEG\<close> and
  \<open>VGA_PAGE_SIZE\<close> (\<open>kvm/bios.h\<close>), the macros \<open>stack_swap\<close> and \<open>stack_restore\<close>
  (\<open>macro.S\<close>), the offset of the label \<open>cursor\<close>, and \<open>e820_query_map\<close>, given by the
  state in which its call returns.
\<close>

record bios_env =
  VGA_RAM_SEG :: "16 word"
  VGA_PAGE_SIZE :: "16 word"
  cursor :: "16 word"
  stack_swap :: "x86 \<Rightarrow> x86"
  stack_restore :: "x86 \<Rightarrow> x86"
  e820_query_map :: "x86 \<Rightarrow> x86"

text \<open>The instructions of \<open>putchar\<close>. In \<open>.code16gcc\<close> a \<open>push\<close> or \<open>pop\<close> of a segment
  register has a 32-bit operand, one of \<open>%bx\<close> a 16-bit operand.\<close>

definition push_fs :: "x86 \<Rightarrow> x86" where
  "push_fs s = push32 (ucast (seg_fs s)) s"

definition push_bx :: "x86 \<Rightarrow> x86" where
  "push_bx s = push16 (bx s) s"

definition mov_imm_bx :: "16 word \<Rightarrow> x86 \<Rightarrow> x86" where
  "mov_imm_bx v s = set_bx v s"

definition mov_bx_fs :: "x86 \<Rightarrow> x86" where
  "mov_bx_fs s = s\<lparr>seg_fs := bx s\<rparr>"

definition mov_cs_cursor_bx :: "16 word \<Rightarrow> x86 \<Rightarrow> x86" where
  "mov_cs_cursor_bx cur s = set_bx (read16 (x_mem s) (lin (seg_cs s) cur)) s"

definition mov_al_fs_bx :: "x86 \<Rightarrow> x86" where
  "mov_al_fs_bx s = s\<lparr>x_mem := poke (x_mem s) (lin (seg_fs s) (bx s)) [al s]\<rparr>"

definition inc_bx :: "x86 \<Rightarrow> x86" where
  "inc_bx s = set_arith (cf s) (bx s + 1 = 0) (set_bx (bx s + 1) s)"

definition test_imm_bx :: "16 word \<Rightarrow> x86 \<Rightarrow> x86" where
  "test_imm_bx v s = test16 v (bx s) s"

definition xor_bx_bx :: "x86 \<Rightarrow> x86" where
  "xor_bx_bx s = set_arith False True (set_bx 0 s)"

definition mov_bx_fs_cursor :: "16 word \<Rightarrow> x86 \<Rightarrow> x86" where
  "mov_bx_fs_cursor cur s = s\<lparr>x_mem := poke (x_mem s) (lin (seg_fs s) cur) (bytes16 (bx s))\<rparr>"

definition pop_bx :: "x86 \<Rightarrow> x86" where
  "pop_bx s = set_bx (fst (pop16 s)) (snd (pop16 s))"

definition pop_fs :: "x86 \<Rightarrow> x86" where
  "pop_fs s = (snd (pop32 s))\<lparr>seg_fs := ucast (fst (pop32 s))\<rparr>"

text \<open>A straight run of instructions, in program order.\<close>

definition run :: "(x86 \<Rightarrow> x86) list \<Rightarrow> x86 \<Rightarrow> x86" where
  "run is s = fold (\<lambda>i t. i t) is s"

text \<open>\<open>bios_int10\<close>: \<open>jne 1f\<close> after the \<open>test\<close> goes to the \<open>IRET\<close>; \<open>jb putchar_new\<close>
  skips the \<open>xor\<close>.\<close>

definition bios_int10 :: "bios_env \<Rightarrow> x86 \<Rightarrow> x86" where
  "bios_int10 env s0 =
     (let s1 = test8 0x0e (ah s0) s0
      in if \<not> zf s1 then IRET s1
         else
           (let s2 = run [stack_swap env, push_fs, push_bx, mov_imm_bx (VGA_RAM_SEG env),
                          mov_bx_fs, mov_cs_cursor_bx (cursor env), mov_al_fs_bx, inc_bx,
                          test_imm_bx (VGA_PAGE_SIZE env)] s1;
                s3 = (if cf s2 then s2 else xor_bx_bx s2)
            in IRET (run [mov_bx_fs_cursor (cursor env), pop_bx, pop_fs, stack_restore env] s3)))"




text \<open>A processor state inside an \<open>INT\<close>: the stack at \<open>0x2000:0x0100\<close> holds the return
  address \<open>0x1000:0x0300\<close> and the given image of \<open>FLAGS\<close>.\<close>

definition in_int :: "32 word \<Rightarrow> 16 word \<Rightarrow> x86" where
  "in_int a fl =
     \<lparr>eax = a, ebx = 0, ecx = 0, edx = 0, edi = 0, esp_hi = 0, sp = 0x0100,
      seg_cs = 0x0040, seg_ss = 0x2000, seg_fs = 0, ip = 0, flags = 0x0002,
      x_mem = poke (\<lambda>_. 0) 0x20100 (bytes16 0x0300 @ bytes16 0x1000 @ bytes16 fl)\<rparr>"

definition sample_env :: bios_env where
  "sample_env = \<lparr>VGA_RAM_SEG = 0xb800, VGA_PAGE_SIZE = 0x1000, cursor = 0x40,
                  stack_swap = (\<lambda>s. s), stack_restore = (\<lambda>s. s), e820_query_map = (\<lambda>s. s)\<rparr>"



section \<open>Properties of the address translation\<close>

lemma ucast_16_32_unat: "unat (ucast (w :: 16 word) :: 32 word) = unat w"
  by (simp add: unsigned_ucast_eq take_bit_nat_eq_self
      less_trans [OF unsigned_less [of w, simplified]])

lemma push_bit_4_unat: "unat (push_bit 4 (ucast (sel :: 16 word) :: 32 word)) = unat sel * 16"
proof -
  have s: "unat sel < 2 ^ 16"
    using unsigned_less [of sel] by simp
  have "unat (push_bit 4 (ucast sel :: 32 word)) = take_bit 32 (push_bit 4 (unat sel))"
    by (simp add: unsigned_push_bit_eq ucast_16_32_unat)
  also have "\<dots> = push_bit 4 (unat sel)"
    using s by (intro take_bit_nat_eq_self) (simp add: push_bit_eq_mult)
  finally show ?thesis
    by (simp add: push_bit_eq_mult)
qed

lemma segment_to_flat_unat:
  "unat (segment_to_flat sel off) = unat sel * 16 + unat off"
proof -
  have s: "unat sel < 2 ^ 16" and f: "unat off < 2 ^ 16"
    using unsigned_less [of sel] unsigned_less [of off] by simp_all
  have "unat (push_bit 4 (ucast sel :: 32 word) + (ucast off :: 32 word))
        = (unat sel * 16 + unat off) mod 2 ^ 32"
    by (simp add: unat_word_ariths push_bit_4_unat ucast_16_32_unat)
  also have "\<dots> = unat sel * 16 + unat off"
    using s f by simp
  finally show ?thesis
    by (simp add: segment_to_flat_def)
qed

text \<open>
  C8. For every offset below \<open>ram_size\<close> the flat translation returns a host pointer
  inside \<open>[ram_start, ram_start + ram_size)\<close>, which \<open>host_ptr_in_ram\<close> accepts, and
  the real-mode translation of \<open>sel:off\<close> is the flat translation of \<open>(sel << 4) + off\<close>.
\<close>

theorem translation_in_ram:
  "(off < ram_size self \<longrightarrow>
      ram_start self \<le> guest_flat_to_host self off \<and>
      guest_flat_to_host self off < ram_start self + ram_size self \<and>
      host_ptr_in_ram self (guest_flat_to_host self off)) \<and>
   guest_real_to_host self sel so = guest_flat_to_host self (unat sel * 16 + unat so)"
  by (simp add: guest_flat_to_host_def host_ptr_in_ram_def guest_real_to_host_def
      segment_to_flat_unat)

theorem translation_in_ram_witness:
  "(0x10000 :: nat) < ram_size fresh_kvm \<and>
   host_ptr_in_ram fresh_kvm (guest_flat_to_host fresh_kvm 0x10000) \<and>
   guest_flat_to_host fresh_kvm 0x10000 = 0x7f0000010000 \<and>
   guest_real_to_host fresh_kvm 0x1000 0 = guest_flat_to_host fresh_kvm 0x10000"
  using translation_in_ram [of "0x10000" fresh_kvm "0x1000" 0]
  by (simp add: fresh_kvm_def guest_flat_to_host_def)

section \<open>Properties of the CPU bring-up\<close>

lemma bind_r_Inr: "bind_r m f = Inr y \<longleftrightarrow> (\<exists>x. m = Inr x \<and> f x = Inr y)"
  by (cases m) (simp_all add: bind_r_def)

lemma setup_sregs_Inr:
  assumes "kvm__setup_sregs hv self = Inr s1"
  obtains sr where "get_sregs hv = Some sr"
    "s1 = self\<lparr>sregs := sr
      \<lparr>cs := (cs sr)\<lparr>selector := boot_selector self, base := ucast (selector_to_base (boot_selector self))\<rparr>,
       ss := (ss sr)\<lparr>selector := boot_selector self, base := ucast (selector_to_base (boot_selector self))\<rparr>,
       ds := (ds sr)\<lparr>selector := boot_selector self, base := ucast (selector_to_base (boot_selector self))\<rparr>,
       es := (es sr)\<lparr>selector := boot_selector self, base := ucast (selector_to_base (boot_selector self))\<rparr>,
       fs := (fs sr)\<lparr>selector := boot_selector self, base := ucast (selector_to_base (boot_selector self))\<rparr>,
       gs := (gs sr)\<lparr>selector := boot_selector self, base := ucast (selector_to_base (boot_selector self))\<rparr>\<rparr>\<rparr>"
  using assms by (auto simp: kvm__setup_sregs_def Let_def split: option.splits if_splits)

lemma setup_regs_Inr:
  "kvm__setup_regs hv s1 = Inr s2 \<Longrightarrow>
     boot_ip s1 \<le> 0xFFFF \<and>
     s2 = s1\<lparr>regs := \<lparr>rax = 0, rbx = 0, rcx = 0, rdx = 0, rsi = 0, rdi = 0,
                rsp = boot_sp s1, rbp = boot_sp s1, r8_15 = replicate 8 0,
                rip = boot_ip s1, rflags = 2\<rparr>\<rparr>"
  by (auto simp: kvm__setup_regs_def Let_def USHRT_MAX_def not_less split: if_splits)

lemma setup_fpu_Inr:
  "kvm__setup_fpu hv s2 = Inr s3 \<Longrightarrow> sregs s3 = sregs s2 \<and> regs s3 = regs s2 \<and> boot_ip s3 = boot_ip s2"
  by (auto simp: kvm__setup_fpu_def Let_def split: if_splits)

lemma setup_msrs_Inr:
  "kvm__setup_msrs hv s3 = Inr s4 \<Longrightarrow> sregs s4 = sregs s3 \<and> regs s4 = regs s3"
  by (auto simp: kvm__setup_msrs_def Let_def split: if_splits)

lemma selector_to_base_unat: "unat (ucast (selector_to_base b) :: 64 word) = unat b * 16"
proof -
  have s: "unat b < 2 ^ 16" using unsigned_less [of b] by simp
  have "unat (selector_to_base b) = (unat b * 16) mod 2 ^ 32"
    by (simp add: selector_to_base_def unat_word_ariths ucast_16_32_unat)
  also have "\<dots> = unat b * 16" using s by simp
  finally have a: "unat (selector_to_base b) = unat b * 16" .
  have "unat (ucast (selector_to_base b) :: 64 word) = unat (selector_to_base b)"
    by (simp add: unsigned_ucast_eq take_bit_nat_eq_self
      less_trans [OF unsigned_less [of "selector_to_base b", simplified]])
  then show ?thesis using a by simp
qed

lemma rip_rejected: "0xFFFF < boot_ip self \<Longrightarrow> \<exists>msg. kvm__reset_vcpu hv self = Inl (Die msg)"
  by (auto simp: kvm__reset_vcpu_def kvm__setup_sregs_def kvm__setup_regs_def bind_r_def Let_def USHRT_MAX_def split: option.splits)

text \<open>
  C9. When \<open>kvm__reset_vcpu\<close> returns, each of CS, SS, DS, ES, FS and GS has the selector
  \<open>boot_selector\<close> and the base \<open>boot_selector * 16\<close>, with the limit and the attributes
  that \<open>KVM_GET_SREGS\<close> returned; GDT, IDT, LDT, TR and CR0 are as the hypervisor returned
  them; \<open>rflags\<close> is 2, \<open>rip\<close> is \<open>boot_ip\<close>, \<open>rsp\<close> and \<open>rbp\<close> are \<open>boot_sp\<close>. A
  \<open>boot_ip\<close> above \<open>0xFFFF\<close> is fatal.
\<close>

theorem reset_vcpu_state:
  "(kvm__reset_vcpu hv self = Inr self' \<longrightarrow>
      (\<exists>sr. get_sregs hv = Some sr \<and>
         (\<forall>(seg, seg0) \<in> {(cs (sregs self'), cs sr), (ss (sregs self'), ss sr), (ds (sregs self'), ds sr),
                (es (sregs self'), es sr), (fs (sregs self'), fs sr), (gs (sregs self'), gs sr)}.
            selector seg = boot_selector self \<and> unat (base seg) = unat (boot_selector self) * 16 \<and>
            limit seg = limit seg0 \<and> attrs seg = attrs seg0) \<and>
         gdt (sregs self') = gdt sr \<and> idt (sregs self') = idt sr \<and> ldt (sregs self') = ldt sr \<and>
         tr (sregs self') = tr sr \<and> cr0 (sregs self') = cr0 sr) \<and>
      rflags (regs self') = 0x2 \<and> rip (regs self') = boot_ip self \<and>
      rsp (regs self') = boot_sp self \<and> rbp (regs self') = boot_sp self \<and>
      boot_ip self \<le> 0xFFFF) \<and>
   (0xFFFF < boot_ip self \<longrightarrow> (\<exists>msg. kvm__reset_vcpu hv self = Inl (Die msg)))"
proof (intro conjI impI)
  assume ok: "kvm__reset_vcpu hv self = Inr self'"
  then obtain s1 s2 s3 where
    a: "kvm__setup_sregs hv self = Inr s1" and b: "kvm__setup_regs hv s1 = Inr s2" and
    c: "kvm__setup_fpu hv s2 = Inr s3" and d: "kvm__setup_msrs hv s3 = Inr self'"
    by (auto simp: kvm__reset_vcpu_def bind_r_Inr)
  from a obtain sr where sr: "get_sregs hv = Some sr" and s1: "s1 = self\<lparr>sregs := sr
      \<lparr>cs := (cs sr)\<lparr>selector := boot_selector self, base := ucast (selector_to_base (boot_selector self))\<rparr>,
       ss := (ss sr)\<lparr>selector := boot_selector self, base := ucast (selector_to_base (boot_selector self))\<rparr>,
       ds := (ds sr)\<lparr>selector := boot_selector self, base := ucast (selector_to_base (boot_selector self))\<rparr>,
       es := (es sr)\<lparr>selector := boot_selector self, base := ucast (selector_to_base (boot_selector self))\<rparr>,
       fs := (fs sr)\<lparr>selector := boot_selector self, base := ucast (selector_to_base (boot_selector self))\<rparr>,
       gs := (gs sr)\<lparr>selector := boot_selector self, base := ucast (selector_to_base (boot_selector self))\<rparr>\<rparr>\<rparr>"
    by (rule setup_sregs_Inr)
  from b have s2: "boot_ip s1 \<le> 0xFFFF" "s2 = s1\<lparr>regs := \<lparr>rax = 0, rbx = 0, rcx = 0, rdx = 0, rsi = 0, rdi = 0,
                rsp = boot_sp s1, rbp = boot_sp s1, r8_15 = replicate 8 0,
                rip = boot_ip s1, rflags = 2\<rparr>\<rparr>"
    using setup_regs_Inr by blast+
  have sregs': "sregs self' = sregs s1"
    using setup_fpu_Inr [OF c] setup_msrs_Inr [OF d] s2 by simp
  have regs': "regs self' = regs s2"
    using setup_fpu_Inr [OF c] setup_msrs_Inr [OF d] by simp
  show "\<exists>sr. get_sregs hv = Some sr \<and>
         (\<forall>(seg, seg0) \<in> {(cs (sregs self'), cs sr), (ss (sregs self'), ss sr), (ds (sregs self'), ds sr),
                (es (sregs self'), es sr), (fs (sregs self'), fs sr), (gs (sregs self'), gs sr)}.
            selector seg = boot_selector self \<and> unat (base seg) = unat (boot_selector self) * 16 \<and>
            limit seg = limit seg0 \<and> attrs seg = attrs seg0) \<and>
         gdt (sregs self') = gdt sr \<and> idt (sregs self') = idt sr \<and> ldt (sregs self') = ldt sr \<and>
         tr (sregs self') = tr sr \<and> cr0 (sregs self') = cr0 sr"
    using sr by (simp add: sregs' s1 selector_to_base_unat)
  show "rflags (regs self') = 0x2" "rip (regs self') = boot_ip self"
    "rsp (regs self') = boot_sp self" "rbp (regs self') = boot_sp self" "boot_ip self \<le> 0xFFFF"
    using s2 by (simp_all add: regs' s1)
next
  assume "0xFFFF < boot_ip self"
  then show "\<exists>msg. kvm__reset_vcpu hv self = Inl (Die msg)" by (rule rip_rejected)
qed

lemma reset_booted_ok: "\<exists>s. kvm__reset_vcpu good_hypervisor booted_kvm = Inr s"
  by (simp add: kvm__reset_vcpu_def kvm__setup_sregs_def kvm__setup_regs_def kvm__setup_fpu_def
      kvm__setup_msrs_def bind_r_def good_hypervisor_def booted_kvm_def fresh_kvm_def USHRT_MAX_def)

theorem reset_vcpu_state_witness:
  "selector (cs (sregs (projr (kvm__reset_vcpu good_hypervisor booted_kvm)))) = 0x1000 \<and>
   unat (base (cs (sregs (projr (kvm__reset_vcpu good_hypervisor booted_kvm))))) = 0x10000 \<and>
   limit (cs (sregs (projr (kvm__reset_vcpu good_hypervisor booted_kvm)))) = 0xffff \<and>
   rflags (regs (projr (kvm__reset_vcpu good_hypervisor booted_kvm))) = 2 \<and>
   rip (regs (projr (kvm__reset_vcpu good_hypervisor booted_kvm))) = 0x200 \<and>
   rsp (regs (projr (kvm__reset_vcpu good_hypervisor booted_kvm))) = 0x8000 \<and>
   (\<exists>msg. kvm__reset_vcpu good_hypervisor (booted_kvm\<lparr>boot_ip := 0x10000\<rparr>) = Inl (Die msg))"
proof -
  obtain s where s: "kvm__reset_vcpu good_hypervisor booted_kvm = Inr s"
    using reset_booted_ok by blast
  have big: "(0xFFFF :: 64 word) < boot_ip (booted_kvm\<lparr>boot_ip := 0x10000\<rparr>)"
    by simp
  show ?thesis
    using reset_vcpu_state [where hv = good_hypervisor and self = booted_kvm and self' = s] s
      reset_vcpu_state [where hv = good_hypervisor and self = "booted_kvm\<lparr>boot_ip := 0x10000\<rparr>"] big
    by (simp add: good_hypervisor_def booted_kvm_def fresh_kvm_def sample_sregs_def sample_segment_def)
qed

section \<open>Properties of the exit-dispatch loop\<close>

lemma main_loop_prefix:
  "\<forall>q\<in>set pre. continues q \<Longrightarrow> main_loop (pre @ rs) = main_loop rs"
proof (induction pre)
  case Nil
  then show ?case by simp
next
  case (Cons q pre)
  then have "continues q" by simp
  then have "main_loop (q # pre @ rs) = main_loop (pre @ rs)"
    by (auto simp: continues_def split: exit_reason.splits)
  with Cons show ?case by simp
qed

text \<open>
  C1, as the code has it. After any number of passes on which the loop continues, a run
  that returns with the exit reason HLT takes the \<open>default\<close> arm of the switch: the loop
  is left through \<open>exit_kvm\<close> on this pass, whatever the later runs would have been, HLT is
  reported as the exit reason, and \<open>main\<close> returns 0 when the dumps succeed.
\<close>

theorem hlt_leaves_loop:
  assumes "\<forall>q\<in>set pre. continues q" and "0 \<le> run_ret r" and "reason r = KVM_EXIT_HLT"
  shows "main_loop (pre @ r # rs) = Some (exit_kvm r) \<and>
         (dump_ok r \<longrightarrow>
            exit_kvm r = Inr (0, [Exit_reason_line KVM_EXIT_HLT ''KVM_EXIT_HLT'', Register_dump]))"
proof -
  have "main_loop (r # rs) = Some (exit_kvm r)"
    using assms(2,3) by simp
  then show ?thesis
    using main_loop_prefix [OF assms(1)] assms(3) by (simp add: exit_kvm_def)
qed

theorem hlt_leaves_loop_witness:
  "main_loop ([exit_with KVM_EXIT_INTR, exit_with KVM_EXIT_IO] @ exit_with KVM_EXIT_HLT # [exit_with KVM_EXIT_INTR])
     = Some (Inr (0, [Exit_reason_line KVM_EXIT_HLT ''KVM_EXIT_HLT'', Register_dump]))"
proof -
  have p: "\<forall>q\<in>set [exit_with KVM_EXIT_INTR, exit_with KVM_EXIT_IO]. continues q"
    by (simp add: continues_def exit_with_def)
  have a: "0 \<le> run_ret (exit_with KVM_EXIT_HLT)" "reason (exit_with KVM_EXIT_HLT) = KVM_EXIT_HLT"
    "dump_ok (exit_with KVM_EXIT_HLT)"
    by (simp_all add: exit_with_def)
  show ?thesis
    using hlt_leaves_loop [OF p a(1,2), of "[exit_with KVM_EXIT_INTR]"] a(3) by simp
qed

text \<open>
  The claim C1 as stated fails: with an HLT exit followed by an INTR exit the monitor ends
  on the HLT, where continuing would have left it running at the end of the trace.
\<close>

theorem hlt_continue_counterexample:
  "main_loop [exit_with KVM_EXIT_HLT, exit_with KVM_EXIT_INTR]
     = Some (Inr (0, [Exit_reason_line KVM_EXIT_HLT ''KVM_EXIT_HLT'', Register_dump])) \<and>
   main_loop [exit_with KVM_EXIT_INTR] = None"
  by (simp add: exit_with_def exit_kvm_def)




text \<open>
  For an exit reason of 18 or more the index of \<open>kvm_exit_reasons\<close> lies past the end of
  the table: the read of the name is undefined, whatever the rest of the run area holds.
\<close>

lemma exit_kvm_beyond_table:
  "reason r = KVM_EXIT_OTHER w \<Longrightarrow>
     exit_kvm r = Inl Fault \<and> (0 \<le> run_ret r \<longrightarrow> main_loop (r # rs) = Some (Inl Fault))"
  by (simp add: exit_kvm_def)

section \<open>Properties of stores and of the read loop\<close>

lemma poke_in: "p \<le> a \<Longrightarrow> a < p + length bs \<Longrightarrow> poke m p bs a = bs ! (a - p)"
  by (simp add: poke_def)

lemma poke_out: "a < p \<or> p + length bs \<le> a \<Longrightarrow> poke m p bs a = m a"
  by (auto simp: poke_def)

lemma poke_Nil: "poke m p [] = m"
  by (rule ext) (auto simp: poke_def)

lemma poke_append: "poke (poke m p xs) (p + length xs) ys = poke m p (xs @ ys)"
  by (rule ext) (auto simp: poke_def nth_append)

lemma store_Nil: "store self p [] = Inr self"
  by (simp add: store_def)

lemma block_in_ram:
  assumes "bs \<noteq> []"
  shows "(host_ptr_in_ram self p \<and> host_ptr_in_ram self (p + length bs - 1)) \<longleftrightarrow>
         (ram_start self \<le> p \<and> p + length bs \<le> ram_start self + ram_size self)"
proof -
  obtain n where n: "length bs = Suc n"
    using assms by (cases bs) simp_all
  show ?thesis
    unfolding host_ptr_in_ram_def n by auto
qed

lemma store_Cons:
  "bs \<noteq> [] \<Longrightarrow> store self p bs =
     (if ram_start self \<le> p \<and> p + length bs \<le> ram_start self + ram_size self
      then Inr (self\<lparr>host_mem := poke (host_mem self) p bs\<rparr>) else Inl Fault)"
  using block_in_ram [of bs self p] by (simp add: store_def)

lemma store_flat:
  "store self (guest_flat_to_host self off) bs =
     (if in_ram self off (length bs)
      then Inr (self\<lparr>host_mem := poke (host_mem self) (ram_start self + off) bs\<rparr>)
      else Inl Fault)"
proof (cases "bs = []")
  case True
  then show ?thesis by (simp add: store_Nil in_ram_def poke_Nil)
next
  case False
  then show ?thesis
    by (simp add: store_Cons in_ram_def guest_flat_to_host_def)
qed

lemma store_Inr:
  "store self p bs = Inr s \<Longrightarrow> s = self\<lparr>host_mem := poke (host_mem self) p bs\<rparr>"
  by (cases "bs = []") (auto simp: store_Nil store_Cons poke_Nil split: if_splits)

lemma store_append:
  "store self p (xs @ ys) =
     (case store self p xs of Inl e \<Rightarrow> Inl e | Inr s \<Rightarrow> store s (p + length xs) ys)"
proof (cases "xs = []")
  case True
  then show ?thesis by (simp add: store_Nil)
next
  case xs: False
  show ?thesis
  proof (cases "ys = []")
    case True
    then show ?thesis by (auto simp: store_Nil split: sum.splits)
  next
    case ys: False
    obtain n where n: "length ys = Suc n"
      using ys by (cases ys) simp_all
    have xy: "xs @ ys \<noteq> []" using xs by simp
    show ?thesis
      unfolding store_Cons [OF xy] store_Cons [OF xs]
      using ys by (auto simp: store_Cons poke_append n)
  qed
qed

lemma read_loop_store: "read_loop self p rest = store self p rest"
proof (induction self p rest rule: read_loop.induct)
  case (1 self p rest)
  show ?case
  proof (cases "rest = []")
    case True
    then show ?thesis by (simp add: read_loop.simps [of self p "[]"] store_Nil)
  next
    case False
    let ?chunk = "take 65536 rest"
    have pos: "0 < length ?chunk" using False by simp
    have len: "drop (length ?chunk) rest = drop 65536 rest"
      by (cases "65536 \<le> length rest") (simp_all add: min_def)
    have "read_loop self p rest =
            (case store self p ?chunk of Inl e \<Rightarrow> Inl e
             | Inr s \<Rightarrow> read_loop s (p + length ?chunk) (drop (length ?chunk) rest))"
      using pos by (subst read_loop.simps) (simp add: Let_def)
    also have "\<dots> = (case store self p ?chunk of Inl e \<Rightarrow> Inl e
             | Inr s \<Rightarrow> store s (p + length ?chunk) (drop (length ?chunk) rest))"
      using "1.IH" [OF refl pos] by (auto split: sum.splits)
    also have "\<dots> = store self p (?chunk @ drop (length ?chunk) rest)"
      by (simp only: store_append)
    also have "\<dots> = store self p rest"
      by (simp only: len append_take_drop_id)
    finally show ?thesis .
  qed
qed

section \<open>Properties of the kernel loader\<close>

lemma bind_r_Inl_iff:
  "bind_r m f = Inl e \<longleftrightarrow> m = Inl e \<or> (\<exists>x. m = Inr x \<and> f x = Inl e)"
  by (cases m) (simp_all add: bind_r_def)

lemma store_Inl: "store self p bs = Inl e \<Longrightarrow> e = Fault"
  by (auto simp: store_def split: if_splits)

lemma boot_loader_ptr:
  "guest_real_to_host self BOOT_LOADER_SELECTOR BOOT_LOADER_IP = guest_flat_to_host self 0x10000"
  by (simp add: guest_real_to_host_def segment_to_flat_unat BOOT_LOADER_SELECTOR_def
      BOOT_LOADER_IP_def)

lemma load_flat_binary_eq:
  "load_flat_binary self file =
     (if in_ram self 0x10000 (length file)
      then Inr (True, self\<lparr>host_mem := poke (host_mem self) (ram_start self + 0x10000) file,
                            boot_selector := 0x1000, boot_ip := 0, boot_sp := 0x8000\<rparr>)
      else Inl Fault)"
  unfolding load_flat_binary_def boot_loader_ptr Let_def
  by (simp add: read_loop_store store_flat bind_r_def
      BOOT_LOADER_SELECTOR_def BOOT_LOADER_IP_def BOOT_LOADER_SP_def)

lemma place_cmdline_Inl: "place_cmdline self boot cmd = Inl e \<Longrightarrow> e = Fault"
  by (auto simp: place_cmdline_def Let_def bind_r_Inl_iff split: option.splits if_splits
      dest: store_Inl)

lemma patch_header_Inl: "patch_header self = Inl e \<Longrightarrow> e = Fault"
  by (auto simp: patch_header_def bind_r_Inl_iff dest: store_Inl)

lemma install_bios_Inl: "install_bios rom self = Inl e \<Longrightarrow> e = Fault"
  by (auto simp: install_bios_def interrupt_table__copy_def Let_def bind_r_Inl_iff dest: store_Inl)

lemma load_bzimage_Inl:
  "load_bzimage rom self file cmd boot0 = Inl e \<Longrightarrow> e = Fault \<or> e = Die ''read''"
  by (auto simp: load_bzimage_def Let_def bind_r_Inl_iff read_loop_store split: if_splits
      dest: store_Inl place_cmdline_Inl patch_header_Inl install_bios_Inl)

lemma load_bzimage_soft:
  "hdr_header (read_boot file boot0) \<noteq> BZIMAGE_MAGIC \<or>
   hdr_version (read_boot file boot0) < BOOT_PROTOCOL_REQUIRED \<Longrightarrow>
   load_bzimage rom self file cmd boot0 = Inr (False, self)"
  by (auto simp: load_bzimage_def Let_def)

lemma load_kernel_soft:
  "load_bzimage rom self file cmd boot0 = Inr (False, s) \<Longrightarrow>
   kvm__load_kernel rom self (Some file) cmd boot0 = load_flat_binary s file"
  by (simp add: kvm__load_kernel_def bind_r_def load_flat_binary_eq)

lemma load_kernel_never_invalid:
  "kvm__load_kernel rom self kf cmd boot0 \<noteq> Inl (Die ''is not a valid bzImage or flat binary'')"
proof (cases kf)
  case None
  then show ?thesis by (simp add: kvm__load_kernel_def)
next
  case (Some f)
  show ?thesis
  proof (cases "load_bzimage rom self f cmd boot0")
    case (Inl e)
    then have "e = Fault \<or> e = Die ''read''" by (rule load_bzimage_Inl)
    then show ?thesis using Inl Some by (auto simp: kvm__load_kernel_def bind_r_def)
  next
    case (Inr rs)
    then show ?thesis using Some
      by (cases rs) (auto simp: kvm__load_kernel_def bind_r_def load_flat_binary_eq)
  qed
qed


lemma short_bzimage_header:
  "hdr_header (read_boot short_bzimage (\<lambda>_. 0)) = BZIMAGE_MAGIC"
  "hdr_version (read_boot short_bzimage (\<lambda>_. 0)) = 0x202"
  "hdr_setup_sects (read_boot short_bzimage (\<lambda>_. 0)) = 0"
  "length short_bzimage = 1024"
  by (simp_all add: hdr_header_def hdr_version_def u16_at_def read_boot_def read_fd_def
      short_bzimage_def BZIMAGE_MAGIC_def off_header_def off_version_def sizeof_boot_params_def
      hdr_setup_sects_def off_setup_sects_def nth_append)




text \<open>
  C10, as the code has it. \<open>load_flat_binary\<close> reports success whenever it returns, with
  \<open>boot_selector = 0x1000\<close>, \<open>boot_ip = 0x0000\<close> and \<open>boot_sp = 0x8000\<close>, also for an
  empty file, and it returns for every file that fits into guest RAM at \<open>0x10000\<close>; so
  after a soft failure of \<open>load_bzimage\<close> the load as a whole succeeds, and
  \<open>kvm__load_kernel\<close> never dies with "not a valid bzImage or flat binary".
\<close>

theorem flat_binary_always_succeeds:
  "(load_flat_binary self img = Inr (r, s) \<longrightarrow>
      r \<and> boot_selector s = 0x1000 \<and> boot_ip s = 0 \<and> boot_sp s = 0x8000) \<and>
   load_flat_binary self [] =
      Inr (True, self\<lparr>boot_selector := 0x1000, boot_ip := 0, boot_sp := 0x8000\<rparr>) \<and>
   (in_ram self 0x10000 (length img) \<longrightarrow> (\<exists>s'. load_flat_binary self img = Inr (True, s'))) \<and>
   (load_bzimage rom self img cmd boot0 = Inr (False, self) \<and> in_ram self 0x10000 (length img) \<longrightarrow>
      (\<exists>s'. kvm__load_kernel rom self (Some img) cmd boot0 = Inr (True, s'))) \<and>
   kvm__load_kernel rom self kf cmd boot0 \<noteq> Inl (Die ''is not a valid bzImage or flat binary'')"
proof (intro conjI impI)
  assume "load_flat_binary self img = Inr (r, s)"
  then show "r" "boot_selector s = 0x1000" "boot_ip s = 0" "boot_sp s = 0x8000"
    by (auto simp: load_flat_binary_eq split: if_splits)
next
  show "load_flat_binary self [] =
      Inr (True, self\<lparr>boot_selector := 0x1000, boot_ip := 0, boot_sp := 0x8000\<rparr>)"
    by (simp add: load_flat_binary_eq in_ram_def poke_Nil)
next
  assume "in_ram self 0x10000 (length img)"
  then show "\<exists>s'. load_flat_binary self img = Inr (True, s')"
    by (simp add: load_flat_binary_eq)
next
  assume a: "load_bzimage rom self img cmd boot0 = Inr (False, self) \<and> in_ram self 0x10000 (length img)"
  then have "kvm__load_kernel rom self (Some img) cmd boot0 = load_flat_binary self img"
    by (simp add: load_kernel_soft)
  then show "\<exists>s'. kvm__load_kernel rom self (Some img) cmd boot0 = Inr (True, s')"
    using a by (simp add: load_flat_binary_eq)
next
  show "kvm__load_kernel rom self kf cmd boot0 \<noteq> Inl (Die ''is not a valid bzImage or flat binary'')"
    by (rule load_kernel_never_invalid)
qed

theorem flat_binary_always_succeeds_witness:
  "load_flat_binary fresh_kvm [] =
      Inr (True, fresh_kvm\<lparr>boot_selector := 0x1000, boot_ip := 0, boot_sp := 0x8000\<rparr>) \<and>
   (\<exists>s'. load_flat_binary fresh_kvm [0xF4, 0xF4] = Inr (True, s')) \<and>
   (\<exists>s'. kvm__load_kernel sample_rom fresh_kvm (Some [0xF4, 0xF4]) None (\<lambda>_. 0) = Inr (True, s'))"
proof -
  have r: "in_ram fresh_kvm 0x10000 (length [0xF4, 0xF4 :: byte])"
    by (simp add: in_ram_def fresh_kvm_def)
  have m: "hdr_header (read_boot [0xF4, 0xF4] (\<lambda>_. 0)) \<noteq> BZIMAGE_MAGIC"
    by (simp add: hdr_header_def read_boot_def read_fd_def BZIMAGE_MAGIC_def off_header_def)
  have b: "load_bzimage sample_rom fresh_kvm [0xF4, 0xF4] None (\<lambda>_. 0) = Inr (False, fresh_kvm)"
    using m by (simp add: load_bzimage_soft)
  show ?thesis
    using r b flat_binary_always_succeeds [where self = fresh_kvm and img = "[0xF4, 0xF4]"
        and rom = sample_rom and cmd = None and ?boot0.0 = "\<lambda>_. 0"]
    by simp
qed

text \<open>
  The claim C10 as stated fails: a file that has the magic and the version \<open>0x0202\<close> but
  is shorter than its setup (here 1024 bytes for a setup of 2560) can be opened, and
  loading dies in \<open>load_bzimage\<close> with \<open>die_perror("read")\<close>.
\<close>

theorem truncated_bzimage_counterexample:
  "hdr_header (read_boot short_bzimage (\<lambda>_. 0)) = BZIMAGE_MAGIC \<and>
   hdr_version (read_boot short_bzimage (\<lambda>_. 0)) = 0x202 \<and>
   kvm__load_kernel sample_rom fresh_kvm (Some short_bzimage) None (\<lambda>_. 0) = Inl (Die ''read'')"
proof -
  have sz: "bz_setup_size (read_boot short_bzimage (\<lambda>_. 0)) = 2560"
    by (simp add: bz_setup_size_def short_bzimage_header BZ_DEFAULT_SETUP_SECTS_def)
  have got: "read_fd short_bzimage 0 2560 = short_bzimage"
    by (simp add: read_fd_def short_bzimage_header)
  have st: "store fresh_kvm (guest_flat_to_host fresh_kvm 0x10000) short_bzimage
            = Inr (fresh_kvm\<lparr>host_mem := poke (host_mem fresh_kvm) (ram_start fresh_kvm + 0x10000) short_bzimage\<rparr>)"
    by (simp add: store_flat in_ram_def short_bzimage_header fresh_kvm_def)
  have "load_bzimage sample_rom fresh_kvm short_bzimage None (\<lambda>_. 0) = Inl (Die ''read'')"
    unfolding load_bzimage_def Let_def boot_loader_ptr sz got st
    by (simp add: short_bzimage_header BOOT_PROTOCOL_REQUIRED_def bind_r_def)
  then show ?thesis
    by (simp add: kvm__load_kernel_def bind_r_def short_bzimage_header)
qed

section \<open>The stages of the bzImage loader in closed form\<close>

lemma store_mem:
  "store self p bs = Inr s \<Longrightarrow>
     host_mem s = poke (host_mem self) p bs \<and> ram_start s = ram_start self \<and>
     ram_size s = ram_size self \<and> boot_selector s = boot_selector self \<and>
     boot_ip s = boot_ip self \<and> boot_sp s = boot_sp self \<and>
     interrupt_table s = interrupt_table self"
  by (drule store_Inr) simp

lemma store_flat2:
  "ram_start s1 = ram_start self \<Longrightarrow>
   store s1 (guest_flat_to_host self off) bs =
     (if in_ram s1 off (length bs)
      then Inr (s1\<lparr>host_mem := poke (host_mem s1) (ram_start self + off) bs\<rparr>)
      else Inl Fault)"
  using store_flat [of s1 off bs] by (simp add: guest_flat_to_host_def)

lemma strlen_le: "strlen s \<le> length s"
  by (simp add: strlen_def length_takeWhile_le)

text \<open>The command line stage in closed form.\<close>

lemma place_cmdline_Some:
  "place_cmdline self boot (Some s) =
     (if 1 \<le> hdr_cmdline_size boot \<and> in_ram self 0x20000 (hdr_cmdline_size boot)
      then Inr (self\<lparr>host_mem :=
             poke (poke (host_mem self) (ram_start self + 0x20000) (replicate (hdr_cmdline_size boot) 0))
               (ram_start self + 0x20000) (take (min (strlen s + 1) (hdr_cmdline_size boot) - 1) s)\<rparr>)
      else Inl Fault)"
proof -
  define C where "C = hdr_cmdline_size boot"
  define c where "c = (if strlen s + 1 > C then C else strlen s + 1)"
  have cs2: "c \<le> C" by (simp add: c_def)
  have cs3: "c = min (strlen s + 1) C" by (simp add: c_def min_def)
  have c0: "c = 0 \<longleftrightarrow> C = 0" by (auto simp: c_def)
  have le: "c - 1 \<le> strlen s" by (auto simp: c_def)
  have tk: "take (c - 1) (s @ [0]) = take (c - 1) s"
    using le strlen_le [of s] by simp
  have ln: "length (take (c - 1) s) \<le> C"
    using cs2 by simp
  have unfold: "place_cmdline self boot (Some s) =
            bind_r (store self (guest_flat_to_host self 0x20000) (replicate C 0))
              (\<lambda>s1. if C = 0 then Inl Fault
                     else store s1 (guest_flat_to_host self 0x20000) (take (c - 1) s))"
    unfolding place_cmdline_def Let_def BOOT_CMDLINE_OFFSET_def option.case
      C_def [symmetric] c_def [symmetric] c0 tk ..
  show ?thesis
  proof (cases "1 \<le> C \<and> in_ram self 0x20000 C")
    case False
    then show ?thesis
      unfolding unfold by (auto simp: store_flat bind_r_def C_def in_ram_def)
  next
    case True
    have in2: "in_ram (self\<lparr>host_mem := m\<rparr>) 0x20000 (length (take (c - 1) s))" for m
      using True ln by (auto simp: in_ram_def)
    show ?thesis
      unfolding unfold using True in2
      by (simp add: store_flat store_flat2 bind_r_def cs3 C_def)
  qed
qed

lemma guest_hdr_flat:
  "guest_hdr self off_cmd_line_ptr = guest_flat_to_host self 0x10228"
  "guest_hdr self off_type_of_loader = guest_flat_to_host self 0x10210"
  "guest_hdr self off_heap_end_ptr = guest_flat_to_host self 0x10224"
  "guest_hdr self off_loadflags = guest_flat_to_host self 0x10211"
  by (simp_all add: guest_hdr_def guest_real_to_host_def segment_to_flat_unat
      BOOT_LOADER_SELECTOR_def off_cmd_line_ptr_def off_type_of_loader_def
      off_heap_end_ptr_def off_loadflags_def)

text \<open>The header patches in closed form.\<close>

lemma patch_header_eq:
  "patch_header self =
     (if 0x1022c \<le> ram_size self
      then Inr (self\<lparr>host_mem :=
             poke (poke (poke (poke (host_mem self)
               (ram_start self + 0x10228) (le32 0x20000))
               (ram_start self + 0x10210) [0xff])
               (ram_start self + 0x10224) (le16 0xfe00))
               (ram_start self + 0x10211) [host_mem self (ram_start self + 0x10211) OR 0x80]\<rparr>)
      else Inl Fault)"
proof -
  have l: "length (le32 v) = 4" "length (le16 v) = 2" for v
    by (simp_all add: le32_def le16_def)
  have old: "poke (poke (poke m (r + 0x10228) (le32 v)) (r + 0x10210) [x]) (r + 0x10224) (le16 w)
               (r + 0x10211) = m (r + 0x10211)" for m r v x w
    by (simp add: poke_out l)
  show ?thesis
    unfolding patch_header_def guest_hdr_flat
    apply (simp add: store_flat bind_r_def in_ram_def l BOOT_CMDLINE_OFFSET_def CAN_USE_HEAP_def)
    apply (simp add: guest_flat_to_host_def old)
    done
qed

lemma ivt_bytes_length:
  "length (concat (map (\<lambda>d. le16 (unat (offset d)) @ le16 (unat (segment d))) tbl)) = 4 * length tbl"
  by (induction tbl) (simp_all add: le16_def)

lemma ivt_table_length:
  "length (interrupt_table__set (interrupt_table__setup d) d' n) = 256"
  by (simp add: interrupt_table__set_def interrupt_table__setup_def)

text \<open>What the installation of the BIOS leaves alone.\<close>

lemma install_bios_frame:
  assumes "install_bios rom self = Inr s'" and "stubs_below rom lim" and "1024 \<le> lim"
  shows "ram_start s' = ram_start self" "ram_size s' = ram_size self"
    "boot_selector s' = boot_selector self" "boot_ip s' = boot_ip self" "boot_sp s' = boot_sp self"
    "ram_start self + lim \<le> a \<Longrightarrow> host_mem s' a = host_mem self a"
proof -
  let ?a1 = "BIOS_INTR_NEXT rom (BDA_START rom + 0) 16"
  let ?a2 = "BIOS_INTR_NEXT rom (BDA_START rom + length (intfake rom)) 16"
  let ?d1 = "\<lparr>segment = REAL_SEGMENT rom ?a1, offset = 0\<rparr>"
  let ?d2 = "\<lparr>segment = REAL_SEGMENT rom ?a2, offset = 0\<rparr>"
  from assms(1) obtain s1 s3 where
    s1: "store self (guest_flat_to_host self ?a1) (intfake rom) = Inr s1" and
    s3: "store (s1\<lparr>interrupt_table := interrupt_table__setup ?d1\<rparr>)
           (guest_flat_to_host (s1\<lparr>interrupt_table := interrupt_table__setup ?d1\<rparr>) ?a2)
           (int10 rom) = Inr s3" and
    s5: "interrupt_table__copy
           (s3\<lparr>interrupt_table := interrupt_table__set (interrupt_table s3) ?d2 0x10\<rparr>)
           (guest_flat_to_host (s3\<lparr>interrupt_table := interrupt_table__set (interrupt_table s3) ?d2 0x10\<rparr>) 0)
         = Inr s'"
    by (auto simp: install_bios_def Let_def bind_r_Inr)
  note m1 = store_mem [OF s1]
  note m3 = store_mem [OF s3]
  note m5 = store_mem [OF s5 [unfolded interrupt_table__copy_def]]
  show "ram_start s' = ram_start self" "ram_size s' = ram_size self"
    "boot_selector s' = boot_selector self" "boot_ip s' = boot_ip self" "boot_sp s' = boot_sp self"
    using m1 m3 m5 by simp_all
  have t3: "interrupt_table s3 = interrupt_table__setup ?d1"
    using m3 by simp
  assume a: "ram_start self + lim \<le> a"
  have l5: "length (concat (map (\<lambda>d. le16 (unat (offset d)) @ le16 (unat (segment d)))
              (interrupt_table__set (interrupt_table s3) ?d2 0x10))) = 1024"
    by (simp add: ivt_bytes_length t3 ivt_table_length)
  have "host_mem s' a = host_mem s3 a"
    using m5 a assms(3) l5 m3 m1 by (simp add: poke_out guest_flat_to_host_def)
  also have "\<dots> = host_mem s1 a"
    using m3 a assms(2) m1 by (simp add: poke_out guest_flat_to_host_def stubs_below_def)
  also have "\<dots> = host_mem self a"
    using m1 a assms(2) by (simp add: poke_out guest_flat_to_host_def stubs_below_def)
  finally show "host_mem s' a = host_mem self a" .
qed

lemma install_bios_succeeds:
  assumes "stubs_below rom lim" and "1024 \<le> lim" and "lim \<le> ram_size self"
  shows "\<exists>s'. install_bios rom self = Inr s'"
proof -
  have r: "in_ram s off n" if "off + n \<le> lim" "ram_size s = ram_size self" for s off n
    using that assms(3) by (simp add: in_ram_def)
  have l: "length (concat (map (\<lambda>d. le16 (unat (offset d)) @ le16 (unat (segment d)))
              (interrupt_table__set (interrupt_table__setup d1) d2 0x10))) = 1024" for d1 d2
    by (simp add: ivt_bytes_length ivt_table_length)
  show ?thesis
    using assms(1,2)
    by (simp add: install_bios_def Let_def store_flat bind_r_def interrupt_table__copy_def r l
        stubs_below_def)
qed

lemma load_bzimage_True:
  assumes "load_bzimage rom self img cmd boot0 = Inr (True, s')"
  obtains s1 s2 s3 s4 where
    "hdr_header (read_boot img boot0) = BZIMAGE_MAGIC"
    "BOOT_PROTOCOL_REQUIRED \<le> hdr_version (read_boot img boot0)"
    "bz_setup_size (read_boot img boot0) \<le> length img"
    "store self (guest_flat_to_host self 0x10000) (take (bz_setup_size (read_boot img boot0)) img) = Inr s1"
    "store s1 (guest_flat_to_host s1 0x100000) (drop (bz_setup_size (read_boot img boot0)) img) = Inr s2"
    "place_cmdline s2 (read_boot img boot0) cmd = Inr s3"
    "patch_header s3 = Inr s4"
    "install_bios rom (s4\<lparr>boot_selector := 0x1000, boot_ip := 0x200, boot_sp := 0x8000\<rparr>) = Inr s'"
proof -
  let ?boot = "read_boot img boot0"
  let ?sz = "bz_setup_size ?boot"
  have m: "hdr_header ?boot = BZIMAGE_MAGIC" and v: "BOOT_PROTOCOL_REQUIRED \<le> hdr_version ?boot"
    using assms by (auto simp: load_bzimage_def Let_def split: if_splits)
  have len: "length (read_fd img 0 ?sz) = ?sz" and
    rest: "\<exists>s1 s2 s3 s4. store self (guest_flat_to_host self 0x10000) (read_fd img 0 ?sz) = Inr s1 \<and>
       store s1 (guest_flat_to_host s1 0x100000) (drop ?sz img) = Inr s2 \<and>
       place_cmdline s2 ?boot cmd = Inr s3 \<and> patch_header s3 = Inr s4 \<and>
       install_bios rom (s4\<lparr>boot_selector := 0x1000, boot_ip := 0x200, boot_sp := 0x8000\<rparr>) = Inr s'"
    using assms m v unfolding load_bzimage_def Let_def boot_loader_ptr read_loop_store
    by (auto simp: bind_r_Inr BZ_KERNEL_START_def BOOT_LOADER_SELECTOR_def
        BOOT_LOADER_IP_def BOOT_LOADER_SP_def split: if_splits)
  have le: "?sz \<le> length img"
    using len by (simp add: read_fd_def)
  then have tk: "read_fd img 0 ?sz = take ?sz img"
    by (simp add: read_fd_def)
  show ?thesis
    using that m v le rest unfolding tk by blast
qed

lemma bz_setup_size_eq:
  "bz_setup_size boot =
     ((if hdr_setup_sects boot = 0 then 4 else hdr_setup_sects boot) + 1) * 512"
  by (simp add: bz_setup_size_def BZ_DEFAULT_SETUP_SECTS_def Let_def)

lemma bz_setup_size_bound: "bz_setup_size boot \<le> 0x20000"
proof -
  have "hdr_setup_sects boot < 256"
    using unsigned_less [of "boot off_setup_sects"] by (simp add: hdr_setup_sects_def)
  then show ?thesis by (simp add: bz_setup_size_eq)
qed

lemma place_cmdline_None: "place_cmdline self boot None = Inr self"
  by (simp add: place_cmdline_def)

text \<open>The memory of guest RAM from \<open>0x10000\<close> upwards after a load that succeeded.\<close>

lemma load_bzimage_mem:
  assumes ok: "load_bzimage rom self img cmd boot0 = Inr (True, s')"
    and low: "stubs_below rom 0x10000"
  defines "boot \<equiv> read_boot img boot0"
  defines "sz \<equiv> bz_setup_size (read_boot img boot0)"
  defines "r \<equiv> ram_start self"
  defines "C \<equiv> (case cmd of None \<Rightarrow> 0 | Some s \<Rightarrow> hdr_cmdline_size (read_boot img boot0))"
  defines "cl \<equiv> (case cmd of None \<Rightarrow> []
                  | Some s \<Rightarrow> take (min (strlen s + 1) (hdr_cmdline_size (read_boot img boot0)) - 1) s)"
  defines "m2 \<equiv> poke (poke (host_mem self) (r + 0x10000) (take sz img)) (r + 0x100000) (drop sz img)"
  defines "m3 \<equiv> poke (poke m2 (r + 0x20000) (replicate C 0)) (r + 0x20000) cl"
  shows "r + 0x10000 \<le> a \<Longrightarrow> host_mem s' a =
           poke (poke (poke (poke m3 (r + 0x10228) (le32 0x20000)) (r + 0x10210) [0xff])
             (r + 0x10224) (le16 0xfe00)) (r + 0x10211) [m3 (r + 0x10211) OR 0x80] a"
    and "sz \<le> length img" and "cmd \<noteq> None \<longrightarrow> 1 \<le> C"
    and "boot_selector s' = 0x1000 \<and> boot_ip s' = 0x200 \<and> boot_sp s' = 0x8000"
proof -
  from ok obtain s1 s2 s3 s4 where
    le: "sz \<le> length img" and
    s1: "store self (guest_flat_to_host self 0x10000) (take sz img) = Inr s1" and
    s2: "store s1 (guest_flat_to_host s1 0x100000) (drop sz img) = Inr s2" and
    s3: "place_cmdline s2 boot cmd = Inr s3" and
    s4: "patch_header s3 = Inr s4" and
    s5: "install_bios rom (s4\<lparr>boot_selector := 0x1000, boot_ip := 0x200, boot_sp := 0x8000\<rparr>) = Inr s'"
    unfolding sz_def boot_def by (rule load_bzimage_True)
  show "sz \<le> length img" by (rule le)
  note f5 = install_bios_frame [OF s5 low]
  show "boot_selector s' = 0x1000 \<and> boot_ip s' = 0x200 \<and> boot_sp s' = 0x8000"
    using f5(3,4,5) by simp
  have r1: "ram_start s1 = r" and h1: "host_mem s1 = poke (host_mem self) (r + 0x10000) (take sz img)"
    using store_mem [OF s1] by (simp_all add: r_def guest_flat_to_host_def)
  have r2: "ram_start s2 = r" and h2: "host_mem s2 = m2"
    using store_mem [OF s2] r1 h1 by (simp_all add: m2_def guest_flat_to_host_def)
  have r3: "ram_start s3 = r" and h3: "host_mem s3 = m3" and c1: "cmd \<noteq> None \<longrightarrow> 1 \<le> C"
  proof -
    show "ram_start s3 = r"
      using s3 r2 by (cases cmd) (auto simp: place_cmdline_None place_cmdline_Some split: if_splits)
    show "host_mem s3 = m3"
      using s3 r2 h2 unfolding m3_def C_def cl_def boot_def
      by (cases cmd) (auto simp: place_cmdline_None place_cmdline_Some poke_Nil split: if_splits)
    show "cmd \<noteq> None \<longrightarrow> 1 \<le> C"
      using s3 unfolding C_def boot_def
      by (cases cmd) (auto simp: place_cmdline_None place_cmdline_Some split: if_splits)
  qed
  show "cmd \<noteq> None \<longrightarrow> 1 \<le> C" by (rule c1)
  have r4: "ram_start s4 = r" and
    h4: "host_mem s4 = poke (poke (poke (poke m3 (r + 0x10228) (le32 0x20000)) (r + 0x10210) [0xff])
             (r + 0x10224) (le16 0xfe00)) (r + 0x10211) [m3 (r + 0x10211) OR 0x80]"
    using s4 r3 h3 by (auto simp: patch_header_eq split: if_splits)
  show "host_mem s' a =
           poke (poke (poke (poke m3 (r + 0x10228) (le32 0x20000)) (r + 0x10210) [0xff])
             (r + 0x10224) (le16 0xfe00)) (r + 0x10211) [m3 (r + 0x10211) OR 0x80] a"
    if a: "r + 0x10000 \<le> a"
  proof -
    have "host_mem s' a = host_mem s4 a"
      using f5(6) [of a] a r4 by simp
    then show ?thesis
      by (simp only: h4)
  qed
qed

lemma le_bytes: "length (le32 v) = 4" "length (le16 v) = 2"
  by (simp_all add: le32_def le16_def)

lemma patches_out:
  assumes "a < r + 0x10210 \<or> r + 0x1022c \<le> a \<or> (r + 0x10212 \<le> a \<and> a < r + 0x10224) \<or>
           (r + 0x10226 \<le> a \<and> a < r + 0x10228)"
  shows "poke (poke (poke (poke m (r + 0x10228) (le32 v)) (r + 0x10210) [x])
             (r + 0x10224) (le16 w)) (r + 0x10211) [y] a = m a"
  using assms by (auto simp: poke_def le_bytes)


section \<open>Properties of a bzImage load\<close>

lemma load_bzimage_succeeds:
  assumes m: "hdr_header (read_boot img boot0) = BZIMAGE_MAGIC"
    and v: "BOOT_PROTOCOL_REQUIRED \<le> hdr_version (read_boot img boot0)"
    and le: "bz_setup_size (read_boot img boot0) \<le> length img"
    and ram: "0x100000 + (length img - bz_setup_size (read_boot img boot0)) \<le> ram_size self"
    and cl: "cmd \<noteq> None \<longrightarrow> 1 \<le> hdr_cmdline_size (read_boot img boot0) \<and>
               0x20000 + hdr_cmdline_size (read_boot img boot0) \<le> ram_size self"
    and low: "stubs_below rom 0x10000"
  shows "\<exists>s'. load_bzimage rom self img cmd boot0 = Inr (True, s')"
proof -
  let ?boot = "read_boot img boot0"
  let ?sz = "bz_setup_size ?boot"
  have got: "read_fd img 0 ?sz = take ?sz img" by (simp add: read_fd_def)
  have len: "length (take ?sz img) = ?sz" using le by simp
  have b: "?sz \<le> 0x20000" by (rule bz_setup_size_bound)
  have "\<exists>s1. store self (guest_flat_to_host self 0x10000) (take ?sz img) = Inr s1 \<and>
          ram_size s1 = ram_size self"
    using ram b by (auto simp: store_flat in_ram_def len)
  then obtain s1 where s1: "store self (guest_flat_to_host self 0x10000) (take ?sz img) = Inr s1"
    and r1: "ram_size s1 = ram_size self" by blast
  have "\<exists>s2. store s1 (guest_flat_to_host s1 0x100000) (drop ?sz img) = Inr s2 \<and>
          ram_size s2 = ram_size self"
    using ram r1 by (auto simp: store_flat in_ram_def)
  then obtain s2 where s2: "store s1 (guest_flat_to_host s1 0x100000) (drop ?sz img) = Inr s2"
    and r2: "ram_size s2 = ram_size self" by blast
  have "\<exists>s3. place_cmdline s2 ?boot cmd = Inr s3 \<and> ram_size s3 = ram_size self"
    using cl r2 by (cases cmd) (auto simp: place_cmdline_None place_cmdline_Some in_ram_def)
  then obtain s3 where s3: "place_cmdline s2 ?boot cmd = Inr s3"
    and r3: "ram_size s3 = ram_size self" by blast
  have "\<exists>s4. patch_header s3 = Inr s4 \<and> ram_size s4 = ram_size self"
    using ram r3 by (simp add: patch_header_eq)
  then obtain s4 where s4: "patch_header s3 = Inr s4" and r4: "ram_size s4 = ram_size self"
    by blast
  have "\<exists>s'. install_bios rom (s4\<lparr>boot_selector := BOOT_LOADER_SELECTOR,
                 boot_ip := ucast BOOT_LOADER_IP + 0x200, boot_sp := ucast BOOT_LOADER_SP\<rparr>) = Inr s'"
    by (rule install_bios_succeeds [OF low]) (use ram r4 in simp_all)
  then obtain s5 where s5: "install_bios rom (s4\<lparr>boot_selector := BOOT_LOADER_SELECTOR,
                 boot_ip := ucast BOOT_LOADER_IP + 0x200, boot_sp := ucast BOOT_LOADER_SP\<rparr>) = Inr s5"
    by blast
  have "load_bzimage rom self img cmd boot0 = Inr (True, s5)"
    unfolding load_bzimage_def Let_def boot_loader_ptr read_loop_store got BZ_KERNEL_START_def
    using m v le by (simp add: s1 s2 s3 s4 s5 bind_r_def)
  then show ?thesis by blast
qed


lemma sample_bzimage_header:
  "hdr_header (read_boot sample_bzimage (\<lambda>_. 0)) = BZIMAGE_MAGIC"
  "hdr_version (read_boot sample_bzimage (\<lambda>_. 0)) = 0x202"
  "hdr_setup_sects (read_boot sample_bzimage (\<lambda>_. 0)) = 1"
  "hdr_cmdline_size (read_boot sample_bzimage (\<lambda>_. 0)) = 8"
  "length sample_bzimage = 1027"
  by (simp_all add: hdr_header_def hdr_version_def u16_at_def u32_at_def read_boot_def read_fd_def
      sample_bzimage_def BZIMAGE_MAGIC_def off_header_def off_version_def sizeof_boot_params_def
      hdr_setup_sects_def off_setup_sects_def hdr_cmdline_size_def off_cmdline_size_def nth_append)


lemma sample_rom_low: "stubs_below sample_rom 0x10000"
  by (simp add: stubs_below_def sample_rom_def)

lemma sample_cmdline_strlen: "strlen sample_cmdline = 10"
  by (simp add: strlen_def sample_cmdline_def)

lemma sample_load_ok:
  "\<exists>s'. load_bzimage sample_rom fresh_kvm sample_bzimage (Some sample_cmdline) (\<lambda>_. 0) = Inr (True, s')"
  by (rule load_bzimage_succeeds)
     (simp_all add: sample_bzimage_header sample_rom_low BOOT_PROTOCOL_REQUIRED_def
        bz_setup_size_eq fresh_kvm_def)


lemma load_bzimage_cmdline_fault:
  assumes m: "hdr_header (read_boot img boot0) = BZIMAGE_MAGIC"
    and v: "BOOT_PROTOCOL_REQUIRED \<le> hdr_version (read_boot img boot0)"
    and le: "bz_setup_size (read_boot img boot0) \<le> length img"
    and ram: "0x100000 + (length img - bz_setup_size (read_boot img boot0)) \<le> ram_size self"
    and z: "hdr_cmdline_size (read_boot img boot0) = 0"
  shows "load_bzimage rom self img (Some s) boot0 = Inl Fault"
proof -
  let ?boot = "read_boot img boot0"
  let ?sz = "bz_setup_size ?boot"
  have got: "read_fd img 0 ?sz = take ?sz img" by (simp add: read_fd_def)
  have len: "length (take ?sz img) = ?sz" using le by simp
  have b: "?sz \<le> 0x20000" by (rule bz_setup_size_bound)
  have "\<exists>s1. store self (guest_flat_to_host self 0x10000) (take ?sz img) = Inr s1"
    using ram b by (auto simp: store_flat in_ram_def len)
  then obtain s1 where s1: "store self (guest_flat_to_host self 0x10000) (take ?sz img) = Inr s1"
    by blast
  have r1: "ram_size s1 = ram_size self" using store_mem [OF s1] by simp
  have "\<exists>s2. store s1 (guest_flat_to_host s1 0x100000) (drop ?sz img) = Inr s2"
    using ram r1 by (auto simp: store_flat in_ram_def)
  then obtain s2 where s2: "store s1 (guest_flat_to_host s1 0x100000) (drop ?sz img) = Inr s2"
    by blast
  have s3: "place_cmdline s2 ?boot (Some s) = Inl Fault"
    using z by (simp add: place_cmdline_Some)
  show ?thesis
    unfolding load_bzimage_def Let_def boot_loader_ptr read_loop_store got BZ_KERNEL_START_def
    using m v le by (simp add: s1 s2 s3 bind_r_def)
qed

lemma zero_size_bzimage_header:
  "hdr_header (read_boot zero_size_bzimage (\<lambda>_. 0)) = BZIMAGE_MAGIC"
  "hdr_version (read_boot zero_size_bzimage (\<lambda>_. 0)) = 0x202"
  "hdr_setup_sects (read_boot zero_size_bzimage (\<lambda>_. 0)) = 1"
  "hdr_cmdline_size (read_boot zero_size_bzimage (\<lambda>_. 0)) = 0"
  "length zero_size_bzimage = 1027"
  by (simp_all add: hdr_header_def hdr_version_def u16_at_def u32_at_def read_boot_def read_fd_def
      zero_size_bzimage_def BZIMAGE_MAGIC_def off_header_def off_version_def sizeof_boot_params_def
      hdr_setup_sects_def off_setup_sects_def hdr_cmdline_size_def off_cmdline_size_def nth_append)

text \<open>
  C7 on the code. A header \<open>cmdline_size\<close> of 0 is exceeded by every non-NULL command
  line; then \<open>cmdline_size - 1\<close> is \<open>SIZE_MAX\<close> in \<open>size_t\<close> and the \<open>memcpy\<close> is asked for
  that many bytes: the copy is not cut to the reserved area, and the behaviour of the
  command line stage, and with it of the load of a bzImage that got that far, is
  undefined.
\<close>

theorem cmdline_size_zero_overrun:
  assumes "hdr_cmdline_size (read_boot img boot0) = 0"
  shows "hdr_cmdline_size (read_boot img boot0) < strlen s + 1 \<and>
         place_cmdline self (read_boot img boot0) (Some s) = Inl Fault \<and>
         (hdr_header (read_boot img boot0) = BZIMAGE_MAGIC \<and>
          BOOT_PROTOCOL_REQUIRED \<le> hdr_version (read_boot img boot0) \<and>
          bz_setup_size (read_boot img boot0) \<le> length img \<and>
          0x100000 + (length img - bz_setup_size (read_boot img boot0)) \<le> ram_size self \<longrightarrow>
          load_bzimage rom self img (Some s) boot0 = Inl Fault)"
proof (intro conjI impI)
  show "hdr_cmdline_size (read_boot img boot0) < strlen s + 1" using assms by simp
  show "place_cmdline self (read_boot img boot0) (Some s) = Inl Fault"
    using assms by (simp add: place_cmdline_Some)
next
  assume a: "hdr_header (read_boot img boot0) = BZIMAGE_MAGIC \<and>
          BOOT_PROTOCOL_REQUIRED \<le> hdr_version (read_boot img boot0) \<and>
          bz_setup_size (read_boot img boot0) \<le> length img \<and>
          0x100000 + (length img - bz_setup_size (read_boot img boot0)) \<le> ram_size self"
  show "load_bzimage rom self img (Some s) boot0 = Inl Fault"
    using a assms by (intro load_bzimage_cmdline_fault) blast+
qed

theorem cmdline_size_zero_overrun_witness:
  "hdr_cmdline_size (read_boot zero_size_bzimage (\<lambda>_. 0)) = 0 \<and>
   place_cmdline fresh_kvm (read_boot zero_size_bzimage (\<lambda>_. 0)) (Some sample_cmdline) = Inl Fault \<and>
   load_bzimage sample_rom fresh_kvm zero_size_bzimage (Some sample_cmdline) (\<lambda>_. 0) = Inl Fault"
  using cmdline_size_zero_overrun [OF zero_size_bzimage_header(4), of sample_cmdline fresh_kvm sample_rom]
  by (simp add: zero_size_bzimage_header BOOT_PROTOCOL_REQUIRED_def bz_setup_size_eq fresh_kvm_def)

text \<open>
  Where the header's \<open>cmdline_size\<close> is at least 1, a command line whose length including
  the terminating NUL exceeds it is truncated: after a load that returned, with the BIOS
  stubs placed below \<open>0x10000\<close>, guest RAM at linear \<open>0x20000\<close> holds the first
  \<open>cmdline_size - 1\<close> characters of the command line, then a NUL at index
  \<open>cmdline_size - 1\<close>, and every byte of the reserved area from that index on is zero.
\<close>

lemma cmdline_truncated_from_size_1:
  assumes "load_bzimage rom self img (Some s) boot0 = Inr (True, self')"
    and "stubs_below rom 0x10000"
    and "hdr_cmdline_size (read_boot img boot0) < strlen s + 1"
    and "1 \<le> hdr_cmdline_size (read_boot img boot0)"
  shows "let C = hdr_cmdline_size (read_boot img boot0);
             ram = (\<lambda>off. host_mem self' (guest_flat_to_host self off))
         in (\<forall>i. i < C - 1 \<longrightarrow> ram (0x20000 + i) = s ! i) \<and>
            ram (0x20000 + (C - 1)) = 0 \<and>
            (\<forall>i. C - 1 \<le> i \<and> i < C \<longrightarrow> ram (0x20000 + i) = 0)"
proof -
  define C where "C = hdr_cmdline_size (read_boot img boot0)"
  define r where "r = ram_start self"
  define cl where "cl = take (min (strlen s + 1) C - 1) s"
  define m2 where "m2 = poke (poke (host_mem self) (r + 0x10000) (take (bz_setup_size (read_boot img boot0)) img))
                          (r + 0x100000) (drop (bz_setup_size (read_boot img boot0)) img)"
  define m3 where "m3 = poke (poke m2 (r + 0x20000) (replicate C 0)) (r + 0x20000) cl"
  define ram where "ram = (\<lambda>off. host_mem self' (guest_flat_to_host self off))"
  note mem = load_bzimage_mem [OF assms(1,2), unfolded option.case, folded C_def r_def,
      folded cl_def m2_def, folded m3_def]
  have C1: "1 \<le> C" using assms(4) by (simp add: C_def)
  have cl_eq: "cl = take (C - 1) s"
    using assms(3) by (simp add: cl_def C_def min_def)
  have "C - 1 \<le> strlen s" using assms(3) by (simp add: C_def)
  then have cll: "length cl = C - 1"
    using strlen_le [of s] by (simp add: cl_eq)
  have ram_eq: "ram (0x20000 + i) = m3 (r + 0x20000 + i)" for i
  proof -
    have "ram (0x20000 + i) =
            poke (poke (poke (poke m3 (r + 0x10228) (le32 0x20000)) (r + 0x10210) [0xff])
              (r + 0x10224) (le16 0xfe00)) (r + 0x10211) [m3 (r + 0x10211) OR 0x80] (r + 0x20000 + i)"
      using mem(1) [of "r + 0x20000 + i"]
      by (simp add: ram_def guest_flat_to_host_def r_def add.assoc)
    also have "\<dots> = m3 (r + 0x20000 + i)"
      by (rule patches_out) simp
    finally show ?thesis .
  qed
  have chars: "ram (0x20000 + i) = s ! i" if "i < C - 1" for i
  proof -
    have "m3 (r + 0x20000 + i) = cl ! (r + 0x20000 + i - (r + 0x20000))"
      unfolding m3_def by (rule poke_in) (use that cll in simp_all)
    then show ?thesis
      using that by (simp add: ram_eq cl_eq)
  qed
  have zero: "ram (0x20000 + i) = 0" if "C - 1 \<le> i" "i < C" for i
  proof -
    have "m3 (r + 0x20000 + i) = poke m2 (r + 0x20000) (replicate C 0) (r + 0x20000 + i)"
      unfolding m3_def by (rule poke_out) (use that cll in simp)
    also have "\<dots> = replicate C 0 ! (r + 0x20000 + i - (r + 0x20000))"
      by (rule poke_in) (use that in simp_all)
    finally show ?thesis
      using that by (simp add: ram_eq)
  qed
  have last: "ram (0x20000 + (C - 1)) = 0"
    using C1 by (intro zero) simp_all
  show ?thesis
    unfolding Let_def C_def [symmetric] ram_def [symmetric]
    using chars zero last by simp
qed

lemma cmdline_truncated_sample:
  "map (\<lambda>off. host_mem (snd (projr (load_bzimage sample_rom fresh_kvm sample_bzimage
                                      (Some sample_cmdline) (\<lambda>_. 0))))
                 (guest_flat_to_host fresh_kvm off))
       [0x20000 + 0, 0x20000 + 1, 0x20000 + 2, 0x20000 + 3, 0x20000 + 4, 0x20000 + 5,
        0x20000 + 6, 0x20000 + 7]
   = [0x61, 0x62, 0x63, 0x64, 0x65, 0x66, 0x67, 0]"
proof -
  obtain s' where ok:
    "load_bzimage sample_rom fresh_kvm sample_bzimage (Some sample_cmdline) (\<lambda>_. 0) = Inr (True, s')"
    using sample_load_ok by blast
  have lt: "hdr_cmdline_size (read_boot sample_bzimage (\<lambda>_. 0)) < strlen sample_cmdline + 1"
    by (simp add: sample_bzimage_header sample_cmdline_strlen)
  have one: "1 \<le> hdr_cmdline_size (read_boot sample_bzimage (\<lambda>_. 0))"
    by (simp add: sample_bzimage_header)
  note t = cmdline_truncated_from_size_1 [OF ok sample_rom_low lt one, unfolded Let_def,
      simplified sample_bzimage_header, simplified]
  have c: "host_mem s' (guest_flat_to_host fresh_kvm (0x20000 + i)) = sample_cmdline ! i"
    if "i < 7" for i
    using t that by simp
  have vals:
    "host_mem s' (guest_flat_to_host fresh_kvm (0x20000 + 0)) = 0x61"
    "host_mem s' (guest_flat_to_host fresh_kvm (0x20000 + 1)) = 0x62"
    "host_mem s' (guest_flat_to_host fresh_kvm (0x20000 + 2)) = 0x63"
    "host_mem s' (guest_flat_to_host fresh_kvm (0x20000 + 3)) = 0x64"
    "host_mem s' (guest_flat_to_host fresh_kvm (0x20000 + 4)) = 0x65"
    "host_mem s' (guest_flat_to_host fresh_kvm (0x20000 + 5)) = 0x66"
    "host_mem s' (guest_flat_to_host fresh_kvm (0x20000 + 6)) = 0x67"
    "host_mem s' (guest_flat_to_host fresh_kvm (0x20000 + 7)) = 0"
    using c [of 0] c [of 1] c [of 2] c [of 3] c [of 4] c [of 5] c [of 6] t
    by (simp_all add: sample_cmdline_def)
  show ?thesis
    using vals by (simp add: ok)
qed

section \<open>Properties of the BIOS stubs\<close>

lemma zf_set_arith: "zf (set_arith c z s) = z"
  by (simp add: zf_def set_arith_def bit_simps)

lemma cf_set_arith: "cf (set_arith c z s) = c"
  by (simp add: cf_def set_arith_def bit_simps)

lemma set_arith_frame:
  "x_mem (set_arith c z s) = x_mem s" "sp (set_arith c z s) = sp s"
  "seg_ss (set_arith c z s) = seg_ss s" "esp_hi (set_arith c z s) = esp_hi s"
  "eax (set_arith c z s) = eax s"
  by (simp_all add: set_arith_def)

lemma IRET_frame: "x_mem (IRET s) = x_mem s" "eax (IRET s) = eax s"
  by (simp_all add: IRET_def)

lemma int10_skips:
  "ah s AND 0x0e \<noteq> 0 \<Longrightarrow> bios_int10 env s = IRET (test8 0x0e (ah s) s)"
  by (simp add: bios_int10_def Let_def test8_def zf_set_arith)

text \<open>
  C4 on the code. With \<open>AH = 0x0E\<close> the conjunction that \<open>test $0x0e, %ah\<close> computes is
  not zero, \<open>jne 1f\<close> is taken, and the handler is the \<open>IRET\<close> alone: guest memory is left
  as it was and \<open>AL\<close> is written nowhere.
\<close>

theorem int10_teletype_skipped:
  assumes "ah s = 0x0E"
  shows "bios_int10 env s = IRET (test8 0x0e (ah s) s) \<and>
         x_mem (bios_int10 env s) = x_mem s"
proof -
  have "ah s AND 0x0e \<noteq> 0" using assms by simp
  then have "bios_int10 env s = IRET (test8 0x0e (ah s) s)" by (rule int10_skips)
  then show ?thesis
    by (simp add: IRET_frame test8_def set_arith_frame)
qed

lemma ah_in_int: "ah (in_int 0x0E41 fl) = 0x0E" "al (in_int 0x0E41 fl) = 0x41"
  "ah (in_int 0x0041 fl) = 0" "al (in_int 0x0041 fl) = 0x41"
  by (simp_all add: ah_def al_def in_int_def)

theorem int10_teletype_skipped_witness:
  "ah (in_int 0x0E41 0x0202) = 0x0E \<and> al (in_int 0x0E41 0x0202) = 0x41 \<and>
   x_mem (bios_int10 sample_env (in_int 0x0E41 0x0202)) = x_mem (in_int 0x0E41 0x0202)"
  using int10_teletype_skipped [where s = "in_int 0x0E41 0x0202" and env = sample_env,
      OF ah_in_int(1), THEN conjunct2]
  by (simp add: ah_in_int)

lemma bx_set_bx: "bx (set_bx v s) = v"
  unfolding bx_def set_bx_def
  by (rule bit_eqI) (auto simp add: bit_simps dest: bit_imp_le_length)

lemma set_bx_frame:
  "x_mem (set_bx v s) = x_mem s" "seg_fs (set_bx v s) = seg_fs s" "eax (set_bx v s) = eax s"
  "sp (set_bx v s) = sp s" "seg_ss (set_bx v s) = seg_ss s" "seg_cs (set_bx v s) = seg_cs s"
  "flags (set_bx v s) = flags s"
  by (simp_all add: set_bx_def)

text \<open>
  The path of \<open>putchar\<close> runs where the conjunction is zero: entered with \<open>AH = 0x00\<close> and
  \<open>AL = 0x41\<close>, the handler writes the character to \<open>VGA_RAM_SEG:0\<close>, and the cursor word
  at \<open>CS:cursor\<close> is still 0 afterwards.
\<close>

lemma int10_putchar_runs:
  "ah (in_int 0x0041 0x0202) = 0 \<and>
   x_mem (bios_int10 sample_env (in_int 0x0041 0x0202)) 0xb8000 = 0x41 \<and>
   read16 (x_mem (bios_int10 sample_env (in_int 0x0041 0x0202))) (lin 0x0040 0x40) = 0"
proof -
  define s1 where "s1 = test8 0x0e (ah (in_int 0x0041 0x0202)) (in_int 0x0041 0x0202)"
  define s2 where "s2 = run [stack_swap sample_env, push_fs, push_bx,
    mov_imm_bx (VGA_RAM_SEG sample_env), mov_bx_fs, mov_cs_cursor_bx (cursor sample_env)] s1"
  define s3 where "s3 = mov_al_fs_bx s2"
  define s4 where "s4 = run [inc_bx, test_imm_bx (VGA_PAGE_SIZE sample_env)] s3"
  define s5 where "s5 = xor_bx_bx s4"
  define s6 where "s6 = run [mov_bx_fs_cursor (cursor sample_env), pop_bx, pop_fs,
    stack_restore sample_env] s5"
  have z: "zf s1" by (simp add: s1_def test8_def zf_set_arith ah_in_int)
  have c4: "\<not> cf s4"
    by (simp add: s4_def run_def test_imm_bx_def test16_def cf_set_arith)
  have "bios_int10 sample_env (in_int 0x0041 0x0202) = IRET s6"
    unfolding bios_int10_def Let_def s1_def [symmetric]
    using z c4 by (simp add: run_def s2_def s3_def s4_def s5_def s6_def)
  then have m: "x_mem (bios_int10 sample_env (in_int 0x0041 0x0202)) = x_mem s6"
    by (simp add: IRET_def)
  have s1m: "x_mem s1 a = (if 0x20100 \<le> a \<and> a < 0x20106 then x_mem (in_int 0x0041 0x0202) a else 0)"
    "seg_cs s1 = 0x0040" "seg_ss s1 = 0x2000" "sp s1 = 0x0100" "eax s1 = 0x41" for a
    by (simp_all add: s1_def test8_def set_arith_def in_int_def poke_def bytes16_def al_def)
  have s2f: "seg_fs s2 = 0xb800" "bx s2 = 0" "al s2 = 0x41"
    "x_mem s2 0xb8000 = 0" "x_mem s2 0x440 = 0" "x_mem s2 0x441 = 0"
    by (simp_all add: s2_def run_def sample_env_def push_fs_def push_bx_def mov_imm_bx_def
        mov_bx_fs_def mov_cs_cursor_bx_def push32_def push16_def bx_set_bx set_bx_frame al_def
        s1m read16_def lin_def poke_def bytes16_def bytes32_def)
  have s3f: "x_mem s3 0xb8000 = 0x41" "x_mem s3 0x440 = 0" "x_mem s3 0x441 = 0" "seg_fs s3 = 0xb800"
    by (simp_all add: s3_def mov_al_fs_bx_def s2f lin_def poke_def)
  have s5f: "x_mem s5 = x_mem s3" "seg_fs s5 = 0xb800"
    by (simp_all add: s5_def s4_def run_def xor_bx_bx_def inc_bx_def test_imm_bx_def test16_def
        set_arith_def set_bx_frame s3f)
  have s6f: "x_mem s6 0xb8000 = 0x41" "x_mem s6 0x440 = 0" "x_mem s6 0x441 = 0"
    by (simp_all add: s6_def run_def sample_env_def mov_bx_fs_cursor_def pop_bx_def pop_fs_def
        pop16_def pop32_def set_bx_frame bx_set_bx s5f s3f lin_def poke_def bytes16_def xor_bx_bx_def
        set_arith_def)
  show ?thesis
    using s6f by (simp add: m ah_in_int read16_def lin_def)
qed






















end
